theory Spec2Isabelle
  imports Complex_Main
begin

section \<open>Errors, tokens and the random sources\<close>

text \<open>
  The exceptions the modelled code can raise. \<open>RuntimeError\<close> is what torch raises
  (an empty range given to \<open>torch.randint\<close>, \<open>torch.cat\<close> on rows of different sizes or on
  no rows, \<open>argmax\<close> of an empty tensor); \<open>ValueError\<close> is Python's \<open>random.randint\<close> on
  an empty range and what a library constructor raises on a bad argument;
  \<open>ZeroDivisionError\<close> is Python's \<open>%\<close> or \<open>/\<close> by zero. A tensor divided by the
  float 0.0 does not raise in torch (it yields inf or nan); the model marks that event
  with \<open>TensorDivByZero\<close>, so that reaching it can be observed.
\<close>

datatype error = RuntimeError | ValueError | ZeroDivisionError | TensorDivByZero

text \<open>
  A random source is the list of the raw values it will hand out, in order; a source that
  has handed out its whole list hands out 0 from then on. Every finite run of the program
  under every sequence of raw values is a run of this model. Tokens are byte values and
  sampled indices, both natural numbers.
\<close>

type_synonym gen = "nat list"

definition next_raw :: "gen \<Rightarrow> nat \<times> gen" where
  "next_raw g = (case g of [] \<Rightarrow> (0, []) | r # g' \<Rightarrow> (r, g'))"

definition take_raw :: "nat \<Rightarrow> gen \<Rightarrow> nat list \<times> gen" where
  "take_raw n g = (take n (g @ replicate n 0), drop n g)"

text \<open>
  \<open>torch.randint(low, high, size=(n,))\<close>: \<open>n\<close> values, each in \<open>[low, high)\<close>, one
  raw value of the generator each; it raises when the range is empty or \<open>n\<close> is negative.
\<close>

definition torch_randint :: "int \<Rightarrow> int \<Rightarrow> int \<Rightarrow> gen \<Rightarrow> error + (int list \<times> gen)" where
  "torch_randint low high n g =
     (if n < 0 \<or> high \<le> low then Inl RuntimeError
      else (case take_raw (nat n) g of
              (raws, g') \<Rightarrow> Inr (map (\<lambda>r. low + int (r mod nat (high - low))) raws, g')))"

text \<open>
  Python's \<open>random.randint(a, b)\<close>: one value in \<open>[a, b]\<close>, both ends included; it raises
  \<open>ValueError\<close> when \<open>b < a\<close>.
\<close>

definition random_randint :: "int \<Rightarrow> int \<Rightarrow> gen \<Rightarrow> error + (int \<times> gen)" where
  "random_randint a b g =
     (if b < a then Inl ValueError
      else (case next_raw g of (r, g') \<Rightarrow> Inr (a + int (r mod nat (b - a + 1)), g')))"

section \<open>Slices\<close>

text \<open>
  A slice bound as Python and torch read it on a sequence of \<open>n\<close> elements: a negative
  bound counts from the end, and every bound is clamped into \<open>[0, n]\<close>.
\<close>

definition slice_index :: "nat \<Rightarrow> int \<Rightarrow> nat" where
  "slice_index n i = (if i < 0 then nat (max 0 (int n + i)) else min n (nat i))"

text \<open>\<open>xs[start:stop]\<close>; empty when the stop is not after the start.\<close>

definition py_slice :: "'a list \<Rightarrow> int \<Rightarrow> int \<Rightarrow> 'a list" where
  "py_slice xs start stop =
     (let a = slice_index (length xs) start; b = slice_index (length xs) stop
      in take (b - a) (drop a xs))"

text \<open>\<open>xs[start:]\<close>.\<close>

definition py_slice_from :: "'a list \<Rightarrow> int \<Rightarrow> 'a list" where
  "py_slice_from xs start = drop (slice_index (length xs) start) xs"

section \<open>sample_batch\<close>

text \<open>
  \<open>torch.cat([s[None, :] for s in rows], dim=0)\<close>: the rows stacked into a matrix. It
  raises on an empty list and on rows of different lengths.
\<close>

definition torch_cat_rows :: "'a list list \<Rightarrow> error + 'a list list" where
  "torch_cat_rows rows =
     (if rows = [] \<or> \<not> list_all (\<lambda>r. length r = length (hd rows)) rows then Inl RuntimeError
      else Inr rows)"

text \<open>
  \<open>sample_batch(data, length, batch_size)\<close>. The conversion \<open>.to(torch.long)\<close> keeps every
  value, so it is not visible in the model.
\<close>

definition sample_batch ::
  "nat list \<Rightarrow> int \<Rightarrow> int \<Rightarrow> gen \<Rightarrow> error + ((nat list list \<times> nat list list) \<times> gen)" where
  "sample_batch data len batch_size g =
     (case torch_randint 0 (int (length data) - len - 1) batch_size g of
        Inl e \<Rightarrow> Inl e
      | Inr (starts, g') \<Rightarrow>
          let seqs_inputs = map (\<lambda>start. py_slice data start (start + len)) starts;
              seqs_target = map (\<lambda>start. py_slice data (start + 1) (start + len + 1)) starts
          in (case torch_cat_rows seqs_inputs of
                Inl e \<Rightarrow> Inl e
              | Inr inputs \<Rightarrow>
                  (case torch_cat_rows seqs_target of
                     Inl e \<Rightarrow> Inl e
                   | Inr target \<Rightarrow> Inr ((inputs, target), g'))))"

section \<open>sample\<close>

text \<open>
  Log-probabilities are real numbers: rounding and the float values inf and nan are not
  part of this model of \<open>sample\<close>.

  \<open>lnprobs.argmax()\<close>: the index of the largest entry, the first one when several are
  largest; torch raises on an empty tensor. \<open>argmax_from xs i best bv\<close> scans \<open>xs\<close>, whose
  first element has index \<open>i\<close>, knowing the best index \<open>best\<close> and its value \<open>bv\<close> so far.
\<close>

fun argmax_from :: "real list \<Rightarrow> nat \<Rightarrow> nat \<Rightarrow> real \<Rightarrow> nat" where
  "argmax_from [] i best bv = best"
| "argmax_from (x # xs) i best bv =
     (if bv < x then argmax_from xs (Suc i) i x else argmax_from xs (Suc i) best bv)"

definition argmax :: "real list \<Rightarrow> error + nat" where
  "argmax xs = (case xs of [] \<Rightarrow> Inl RuntimeError | x # rest \<Rightarrow> Inr (argmax_from rest 1 0 x))"

text \<open>
  \<open>lnprobs / temperature\<close>, elementwise. The division by 0.0 is marked (see \<open>error\<close>).
\<close>

definition tensor_div :: "real list \<Rightarrow> real \<Rightarrow> error + real list" where
  "tensor_div xs t = (if t = 0 then Inl TensorDivByZero else Inr (map (\<lambda>x. x / t) xs))"

text \<open>
  The library calls of \<open>sample\<close> whose results the source only passes on:
  \<open>softmax xs\<close> is \<open>F.softmax(xs, dim=0)\<close>, and \<open>categorical p r\<close> is the index that
  \<open>dist.Categorical(p).sample()\<close> returns, as a function of the probability vector and of the
  next raw value of torch's generator.
\<close>

record torch_lib =
  softmax :: "real list \<Rightarrow> real list"
  categorical :: "real list \<Rightarrow> nat \<Rightarrow> nat"

text \<open>
  \<open>sample(lnprobs, temperature)\<close>. The generator is threaded through: the result holds the
  generator after the call. The library's sampler is taken to return an index for every
  probability vector: what \<open>dist.Categorical\<close> raises on a vector that it rejects is not
  modelled.
\<close>

definition sample :: "torch_lib \<Rightarrow> real list \<Rightarrow> real \<Rightarrow> gen \<Rightarrow> error + (nat \<times> gen)" where
  "sample lib lnprobs temperature g =
     (if temperature = 0 then
        (case argmax lnprobs of Inl e \<Rightarrow> Inl e | Inr i \<Rightarrow> Inr (i, g))
      else
        (case tensor_div lnprobs temperature of
           Inl e \<Rightarrow> Inl e
         | Inr scaled \<Rightarrow>
             let p = softmax lib scaled;
                 (r, g') = next_raw g
             in Inr (categorical lib p r, g')))"

section \<open>sample_sequence\<close>

text \<open>
  Tensors live in a store: a reference is an index into the list of all tensors allocated
  so far, and an operation that builds a new tensor (\<open>clone\<close>, \<open>torch.cat\<close>) appends one.
  \<open>sample_sequence\<close> has no operation that writes into an existing tensor.
\<close>

type_synonym tensor_ref = nat
type_synonym store = "nat list list"

text \<open>\<open>seed.detach().clone()\<close>: a new tensor with a copy of the contents.\<close>

definition clone :: "store \<Rightarrow> tensor_ref \<Rightarrow> store \<times> tensor_ref" where
  "clone h a = (h @ [h ! a], length h)"

text \<open>\<open>torch.cat([sequence, c[None]], dim=0)\<close>: a new tensor, the sequence and one more token.\<close>

definition cat_token :: "store \<Rightarrow> tensor_ref \<Rightarrow> nat \<Rightarrow> store \<times> tensor_ref" where
  "cat_token h a c = (h @ [h ! a @ [c]], length h)"

text \<open>
  The body of \<open>for _ in range(length)\<close>, run \<open>n\<close> times. \<open>model input\<close> stands for
  \<open>model(input[None, :])[3][0, -1, :]\<close>: the final layer's output at the last position.
  The local variable \<open>sequence\<close> is rebound to the new tensor in every round.
\<close>

fun sample_loop ::
  "torch_lib \<Rightarrow> (nat list \<Rightarrow> real list) \<Rightarrow> int \<Rightarrow> real \<Rightarrow> nat \<Rightarrow>
   store \<times> tensor_ref \<times> gen \<Rightarrow> error + (store \<times> tensor_ref \<times> gen)" where
  "sample_loop lib model max_context temperature 0 (h, sequence, g) = Inr (h, sequence, g)"
| "sample_loop lib model max_context temperature (Suc n) (h, sequence, g) =
     (let input = py_slice_from (h ! sequence) (- max_context);
          output = model input
      in (case sample lib output temperature g of
            Inl e \<Rightarrow> Inl e
          | Inr (c, g') \<Rightarrow>
              (case cat_token h sequence c of
                 (h', sequence') \<Rightarrow>
                   sample_loop lib model max_context temperature n (h', sequence', g'))))"

text \<open>
  \<open>sample_sequence(model, seed, max_context, length, temperature)\<close>, on the store \<open>h\<close>.
  The result is the returned reference, the store and the generator after the call. The
  last line of the source is \<open>return seed\<close>. What \<open>verbose\<close> prints is not modelled.
\<close>

definition sample_sequence ::
  "torch_lib \<Rightarrow> (nat list \<Rightarrow> real list) \<Rightarrow> store \<Rightarrow> tensor_ref \<Rightarrow> int \<Rightarrow> int \<Rightarrow> real \<Rightarrow>
   gen \<Rightarrow> error + (tensor_ref \<times> store \<times> gen)" where
  "sample_sequence lib model h seed max_context len temperature g =
     (case clone h seed of
        (h0, sequence) \<Rightarrow>
          (case sample_loop lib model max_context temperature (nat len) (h0, sequence, g) of
             Inl e \<Rightarrow> Inl e
           | Inr (h', sequence', g') \<Rightarrow> Inr (seed, h', g')))"

section \<open>ema_update and Python's floats\<close>

text \<open>
  \<open>ema_update(old, new, beta)\<close>, as the source writes it, for the types of number with
  these operations that follow: Python's floats without rounding (\<open>pyfloat\<close>, the numbers of
  the tracker that is modelled from the spec) and Python's floats with the rounding of
  their arithmetic (\<open>float64\<close>).
\<close>

definition ema_update :: "'a::{plus,minus,times,one} \<Rightarrow> 'a \<Rightarrow> 'a \<Rightarrow> 'a" where
  "ema_update old new beta = beta * old + (1 - beta) * new"

text \<open>
  A Python float with its special values and without rounding: a real number, an infinity
  or nan. The arithmetic is IEEE 754's on the special values.
\<close>

datatype pyfloat = Finite real | PosInf | NegInf | NaN

fun is_finite :: "pyfloat \<Rightarrow> bool" where
  "is_finite (Finite x) = True"
| "is_finite PosInf = False"
| "is_finite NegInf = False"
| "is_finite NaN = False"

instantiation pyfloat :: "{plus, minus, uminus, times, one}"
begin

fun plus_pyfloat :: "pyfloat \<Rightarrow> pyfloat \<Rightarrow> pyfloat" where
  "plus_pyfloat NaN y = NaN"
| "plus_pyfloat x NaN = NaN"
| "plus_pyfloat (Finite a) (Finite b) = Finite (a + b)"
| "plus_pyfloat PosInf NegInf = NaN"
| "plus_pyfloat NegInf PosInf = NaN"
| "plus_pyfloat PosInf y = PosInf"
| "plus_pyfloat x PosInf = PosInf"
| "plus_pyfloat NegInf y = NegInf"
| "plus_pyfloat x NegInf = NegInf"

fun uminus_pyfloat :: "pyfloat \<Rightarrow> pyfloat" where
  "uminus_pyfloat (Finite a) = Finite (- a)"
| "uminus_pyfloat PosInf = NegInf"
| "uminus_pyfloat NegInf = PosInf"
| "uminus_pyfloat NaN = NaN"

definition minus_pyfloat :: "pyfloat \<Rightarrow> pyfloat \<Rightarrow> pyfloat" where
  "minus_pyfloat x y = x + (- y)"

fun inf_times :: "pyfloat \<Rightarrow> real \<Rightarrow> pyfloat" where
  "inf_times i b = (if b = 0 then NaN else if 0 < b then i else - i)"

fun times_pyfloat :: "pyfloat \<Rightarrow> pyfloat \<Rightarrow> pyfloat" where
  "times_pyfloat NaN y = NaN"
| "times_pyfloat x NaN = NaN"
| "times_pyfloat (Finite a) (Finite b) = Finite (a * b)"
| "times_pyfloat (Finite a) y = inf_times y a"
| "times_pyfloat x (Finite b) = inf_times x b"
| "times_pyfloat PosInf y = y"
| "times_pyfloat NegInf y = - y"

definition one_pyfloat :: pyfloat where
  "one_pyfloat = Finite 1"

instance ..

end

section \<open>Python's floats with rounding\<close>

text \<open>
  A finite Python float is an IEEE 754 binary64 number: a multiple of a power of two with
  a significand of 53 bits, or of \<open>2 ^ -1074\<close> below \<open>2 ^ -1022\<close>. An arithmetic operation
  returns the exact result rounded to the nearest such number, to the one with the even
  significand when two are equally near, and an infinity when that is beyond the largest
  float. Signed zeros are not distinguished.

  \<open>rne t\<close>: the integer nearest to \<open>t\<close>, the even one of two.
\<close>

definition rne :: "real \<Rightarrow> int" where
  "rne t =
     (let f = \<lfloor>t\<rfloor>
      in if t - of_int f < 1 / 2 then f
         else if 1 / 2 < t - of_int f then f + 1
         else if even f then f else f + 1)"

text \<open>
  The binary exponent of a positive number: \<open>2 ^ expo a \<le> a < 2 ^ (expo a + 1)\<close>.
\<close>

function expo :: "real \<Rightarrow> int" where
  "expo a =
     (if a \<le> 0 then 0
      else if 2 \<le> a then expo (a / 2) + 1
      else if a < 1 then expo (a * 2) - 1
      else 0)"
  by pat_completeness auto
termination
proof (relation "measure (\<lambda>a. if 1 \<le> a then nat \<lfloor>a\<rfloor> else nat \<lceil>1 / a\<rceil>)")
  show "wf (measure (\<lambda>a. if 1 \<le> a then nat \<lfloor>a\<rfloor> else nat \<lceil>1 / a\<rceil>))" by simp
next
  fix a :: real
  assume a: "\<not> a \<le> 0" "2 \<le> a"
  have "\<lfloor>a / 2\<rfloor> < \<lfloor>a\<rfloor>" using a by linarith
  moreover have "0 < \<lfloor>a\<rfloor>" using a by linarith
  ultimately show "(a / 2, a) \<in> measure (\<lambda>a. if 1 \<le> a then nat \<lfloor>a\<rfloor> else nat \<lceil>1 / a\<rceil>)"
    using a by simp
next
  fix a :: real
  assume a: "\<not> a \<le> 0" "\<not> 2 \<le> a" "a < 1"
  show "(a * 2, a) \<in> measure (\<lambda>a. if 1 \<le> a then nat \<lfloor>a\<rfloor> else nat \<lceil>1 / a\<rceil>)"
  proof (cases "1 \<le> a * 2")
    case True
    have "\<lfloor>a * 2\<rfloor> = 1" using True a by linarith
    moreover have "1 < 1 / a" using a by simp
    then have "2 \<le> \<lceil>1 / a\<rceil>" by linarith
    ultimately show ?thesis using True a by simp
  next
    case False
    have w: "2 < 1 / a" using False a by (simp add: field_simps)
    have "1 / (a * 2) = (1 / a) / 2" by simp
    with w have "\<lceil>1 / (a * 2)\<rceil> < \<lceil>1 / a\<rceil>" by linarith
    moreover have "0 < \<lceil>1 / a\<rceil>" using w by linarith
    ultimately show ?thesis using False a by simp
  qed
qed

text \<open>The spacing of the floats around \<open>z\<close>, and the largest finite float.\<close>

definition quantum :: "real \<Rightarrow> real" where
  "quantum z = 2 powi (max (expo \<bar>z\<bar>) (- 1022) - 52)"

definition max_float :: real where
  "max_float = (2 - 2 powi (- 52)) * 2 ^ 1023"

text \<open>The float nearest to the real number \<open>z\<close>.\<close>

definition round64 :: "real \<Rightarrow> pyfloat" where
  "round64 z =
     (let r = of_int (rne (z / quantum z)) * quantum z
      in if max_float < r then PosInf else if r < - max_float then NegInf else Finite r)"

fun rounded :: "pyfloat \<Rightarrow> pyfloat" where
  "rounded (Finite z) = round64 z"
| "rounded PosInf = PosInf"
| "rounded NegInf = NegInf"
| "rounded NaN = NaN"

text \<open>
  Python's floats with their arithmetic: the exact result of \<open>pyfloat\<close>, rounded. The
  \<open>1\<close> of \<open>1 - beta\<close> is the integer 1, which Python converts to the float 1.0.
\<close>

datatype float64 = Float64 pyfloat

instantiation float64 :: "{plus, minus, times, one}"
begin

fun plus_float64 :: "float64 \<Rightarrow> float64 \<Rightarrow> float64" where
  "plus_float64 (Float64 a) (Float64 b) = Float64 (rounded (a + b))"

fun minus_float64 :: "float64 \<Rightarrow> float64 \<Rightarrow> float64" where
  "minus_float64 (Float64 a) (Float64 b) = Float64 (rounded (a - b))"

fun times_float64 :: "float64 \<Rightarrow> float64 \<Rightarrow> float64" where
  "times_float64 (Float64 a) (Float64 b) = Float64 (rounded (a * b))"

definition one_float64 :: float64 where
  "one_float64 = Float64 (Finite 1)"

instance ..

end

text \<open>The float that a decimal literal of the source denotes, such as \<open>0.99\<close>.\<close>

definition float_literal :: "real \<Rightarrow> float64" where
  "float_literal r = Float64 (round64 r)"

section \<open>The loss combiner and the EMA tracker\<close>

text \<open>\<open>ema_losses = [float('inf')] * 4\<close>, the state the loop of \<open>go\<close> starts from.\<close>

definition initial_ema_losses :: "pyfloat list" where
  "initial_ema_losses = replicate 4 PosInf"

text \<open>
  Modelled from the spec: \<open>former.util.distill_loss\<close>, which \<open>go\<close> calls as
  \<open>util.distill_loss(outputs[3], target, outputs[0:3], gamma)\<close>, is not among the sources.
  By section 4.2 of the spec, \<open>combine(teacher_logits, target, student_logits_list, gamma)\<close>
  returns \<open>(total_loss, teacher_loss, student_losses)\<close>, where \<open>teacher_loss\<close> is the
  averaged negative log-likelihood of the target under the teacher's logits,
  \<open>student_losses[k]\<close> is the same under the k-th student's logits, and
  \<open>total_loss = teacher_loss + gamma * mean(student_losses)\<close>. The negative log-likelihood
  is the argument \<open>nll\<close>; losses are real numbers.
\<close>

definition mean :: "real list \<Rightarrow> real" where
  "mean xs = sum_list xs / real (length xs)"

definition distill_loss ::
  "('o \<Rightarrow> 't \<Rightarrow> real) \<Rightarrow> 'o \<Rightarrow> 't \<Rightarrow> 'o list \<Rightarrow> real \<Rightarrow> real \<times> real \<times> real list" where
  "distill_loss nll teacher_logits target student_logits_list gamma =
     (let teacher_loss = nll teacher_logits target;
          student_losses = map (\<lambda>y. nll y target) student_logits_list;
          total_loss = teacher_loss + gamma * mean student_losses
      in (total_loss, teacher_loss, student_losses))"

text \<open>
  Modelled from the spec: \<open>former.util.compute_ema_losses\<close>, which \<open>go\<close> calls as
  \<open>compute_ema_losses(outputs, target, ema_losses)\<close>, is not among the sources. By section
  4.3 of the spec, \<open>update(model_outputs, target, ema_state)\<close> returns
  \<open>(losses, new_ema_state)\<close>: one cross-entropy loss per layer, and for each layer k,
  \<open>new_ema_state[k] = beta * ema_state[k] + (1 - beta) * losses[k]\<close> if \<open>ema_state[k]\<close> is
  finite, otherwise \<open>new_ema_state[k] = losses[k]\<close>; \<open>beta = 0.99\<close> by default. The blend is
  the source's \<open>ema_update\<close>.
\<close>

definition compute_ema_losses ::
  "('o \<Rightarrow> 't \<Rightarrow> pyfloat) \<Rightarrow> pyfloat \<Rightarrow> 'o list \<Rightarrow> 't \<Rightarrow> pyfloat list \<Rightarrow> pyfloat list \<times> pyfloat list" where
  "compute_ema_losses nll beta outputs target ema_state =
     (let losses = map (\<lambda>y. nll y target) outputs;
          new_ema_state =
            map (\<lambda>(e, l). if is_finite e then ema_update e l beta else l) (zip ema_state losses)
      in (losses, new_ema_state))"

text \<open>
  The tracker's state after the batches of a run, one \<open>(outputs, target)\<close> per iteration:
  \<open>losses, ema_losses = compute_ema_losses(outputs, target, ema_losses)\<close> in the loop of \<open>go\<close>.
\<close>

fun ema_run ::
  "('o \<Rightarrow> 't \<Rightarrow> pyfloat) \<Rightarrow> pyfloat \<Rightarrow> ('o list \<times> 't) list \<Rightarrow> pyfloat list \<Rightarrow> pyfloat list" where
  "ema_run nll beta [] ema_losses = ema_losses"
| "ema_run nll beta ((outputs, target) # rest) ema_losses =
     ema_run nll beta rest (snd (compute_ema_losses nll beta outputs target ema_losses))"

section \<open>go: the training loop\<close>

text \<open>
  The options of \<open>go\<close> that the loop's control flow reads (\<open>context_len\<close> is \<open>context\<close>).
\<close>

record config =
  num_batches :: int
  batch_size :: int
  context_len :: int
  test_every :: int
  test_subset :: int
  sample_length :: int
  final :: bool

text \<open>
  What \<open>go\<close> calls and this file does not define, for a model with parameters of type \<open>'m\<close>:
  \<^item> \<open>torch\<close>: the library calls of \<open>sample\<close>;
  \<^item> \<open>manual_seed s\<close>: torch's generator after \<open>torch.manual_seed(s)\<close>;
  \<^item> \<open>create_model g\<close>: the parameters \<open>DistGen(...)\<close> starts with and torch's generator afterwards;
  \<^item> \<open>one_cycle_lr total_steps\<close>: what the call \<open>OneCycleLR(...)\<close> of lines 199 to 206 raises
    for a positive \<open>total_steps\<close>, with the options \<open>lr_min\<close>, \<open>lr_max\<close>, \<open>peak\<close> and \<open>anneal\<close> of
    the run, if it raises;
  \<^item> \<open>logits m input\<close>: \<open>model(input[None, :])[3][0, -1, :]\<close> for the model with parameters \<open>m\<close>;
  \<^item> \<open>train_step m source target\<close>: the parameters after lines 223 to 278 on one batch
    (forward pass, losses, logging, backward pass, clipping, optimiser and schedule steps);
  \<^item> \<open>compute_compression m data_sub\<close>: \<open>util.compute_compression(model, data_sub, ...)\<close>.
\<close>

record 'm externals =
  torch :: torch_lib
  manual_seed :: "int \<Rightarrow> gen"
  create_model :: "gen \<Rightarrow> 'm \<times> gen"
  one_cycle_lr :: "int \<Rightarrow> error option"
  logits :: "'m \<Rightarrow> nat list \<Rightarrow> real list"
  train_step :: "'m \<Rightarrow> nat list list \<Rightarrow> nat list list \<Rightarrow> 'm"
  compute_compression :: "'m \<Rightarrow> nat list \<Rightarrow> real"

text \<open>
  What a run leaves behind, in order: the batch of every iteration, and for an iteration
  that is evaluated the offset \<open>seedfr\<close> with the seed window given to \<open>sample_sequence\<close>,
  then the evaluation subset with its bits per byte.
\<close>

datatype event =
    Trained nat "nat list list" "nat list list"
  | Sampled nat int "nat list"
  | Evaluated nat "nat list" real

text \<open>
  The state of the loop: the model's parameters, torch's generator, the generator of
  Python's \<open>random\<close> module, \<open>instances_seen\<close> and the events so far.
\<close>

record 'm run =
  params :: 'm
  torch_gen :: gen
  py_gen :: gen
  instances_seen :: int
  trace :: "event list"

text \<open>
  Lines 152 to 156: with a negative seed, a seed is drawn from Python's \<open>random\<close> and
  printed, and torch's generator stays as it was; otherwise \<open>torch.manual_seed(seed)\<close>.
  The result is torch's generator and the generator of \<open>random\<close>.
\<close>

definition seed_sources :: "'m externals \<Rightarrow> int \<Rightarrow> gen \<Rightarrow> gen \<Rightarrow> error + (gen \<times> gen)" where
  "seed_sources ext seed torch0 py0 =
     (if seed < 0 then
        (case random_randint 0 1000000 py0 of
           Inl e \<Rightarrow> Inl e
         | Inr (seed', py1) \<Rightarrow> Inr (torch0, py1))
      else Inr (manual_seed ext seed, py0))"

text \<open>
  Lines 199 to 206: \<open>OneCycleLR(optimizer=opt, max_lr=lr_max, total_steps=num_batches, ...)\<close>.
  The constructor raises \<open>ValueError\<close> when \<open>total_steps\<close> is not positive. Its first step
  divides by \<open>float(peak * total_steps) - 1\<close> when that is not negative, which raises
  \<open>ZeroDivisionError\<close> for \<open>total_steps = 5\<close> and the default \<open>peak = 0.2\<close>; this and what
  else the call raises (the quotient \<open>lr_max / lr_min\<close> of its arguments, an unknown
  \<open>anneal\<close>) is \<open>one_cycle_lr\<close>.
\<close>

definition create_scheduler :: "'m externals \<Rightarrow> int \<Rightarrow> error option" where
  "create_scheduler ext total_steps =
     (if total_steps \<le> 0 then Some ValueError else one_cycle_lr ext total_steps)"

text \<open>Lines 176 to 181: the training and the held-out data.\<close>

definition select_data :: "bool \<Rightarrow> nat list \<Rightarrow> nat list \<Rightarrow> nat list \<Rightarrow> nat list \<times> nat list" where
  "select_data fin data_train data_val data_test =
     (if fin then (data_train @ data_val, data_test) else (data_train, data_val))"

text \<open>
  Line 280: \<open>i != 0 and (i % test_every == 0 or i == num_batches - 1)\<close>. Python's \<open>and\<close>
  does not evaluate its right side when \<open>i\<close> is 0; \<open>%\<close> raises on a zero divisor.
\<close>

definition due :: "config \<Rightarrow> nat \<Rightarrow> error + bool" where
  "due cfg i =
     (if i = 0 then Inr False
      else if test_every cfg = 0 then Inl ZeroDivisionError
      else Inr (int i mod test_every cfg = 0 \<or> int i = num_batches cfg - 1))"

text \<open>
  Lines 281 to 310: the sampling check and the bits-per-byte evaluation of iteration \<open>i\<close>.
  \<open>sample_sequence\<close> runs on a store that holds the seed window only, with its default
  temperature 0.5; its result is not used.
\<close>

definition evaluate :: "'m externals \<Rightarrow> config \<Rightarrow> nat list \<Rightarrow> nat \<Rightarrow> 'm run \<Rightarrow> error + 'm run" where
  "evaluate ext cfg data_test i st =
     (case random_randint 0 (int (length data_test) - context_len cfg) (py_gen st) of
        Inl e \<Rightarrow> Inl e
      | Inr (seedfr, pg) \<Rightarrow>
          let seed = py_slice data_test seedfr (seedfr + context_len cfg)
          in (case sample_sequence (torch ext) (logits ext (params st)) [seed] 0
                     (context_len cfg) (sample_length cfg) (1 / 2) (torch_gen st) of
                Inl e \<Rightarrow> Inl e
              | Inr (r, h, tg) \<Rightarrow>
                  let upto = (if int i = num_batches cfg - 1 then int (length data_test)
                              else test_subset cfg);
                      data_sub = py_slice data_test 0 upto;
                      bits_per_byte = compute_compression ext (params st) data_sub
                  in Inr (st\<lparr>torch_gen := tg, py_gen := pg,
                             trace := trace st @ [Sampled i seedfr seed,
                                                  Evaluated i data_sub bits_per_byte]\<rparr>)))"

text \<open>The body of \<open>for i in tqdm.trange(num_batches)\<close>.\<close>

definition iteration ::
  "'m externals \<Rightarrow> config \<Rightarrow> nat list \<Rightarrow> nat list \<Rightarrow> nat \<Rightarrow> 'm run \<Rightarrow> error + 'm run" where
  "iteration ext cfg data_train data_test i st =
     (case sample_batch data_train (context_len cfg) (batch_size cfg) (torch_gen st) of
        Inl e \<Rightarrow> Inl e
      | Inr ((source, target), tg) \<Rightarrow>
          let st1 = st\<lparr>params := train_step ext (params st) source target,
                       torch_gen := tg,
                       instances_seen := instances_seen st + int (length source),
                       trace := trace st @ [Trained i source target]\<rparr>
          in (case due cfg i of
                Inl e \<Rightarrow> Inl e
              | Inr d \<Rightarrow> if d then evaluate ext cfg data_test i st1 else Inr st1))"

fun run_iters ::
  "'m externals \<Rightarrow> config \<Rightarrow> nat list \<Rightarrow> nat list \<Rightarrow> nat list \<Rightarrow> 'm run \<Rightarrow> error + 'm run" where
  "run_iters ext cfg data_train data_test [] st = Inr st"
| "run_iters ext cfg data_train data_test (i # rest) st =
     (case iteration ext cfg data_train data_test i st of
        Inl e \<Rightarrow> Inl e
      | Inr st' \<Rightarrow> run_iters ext cfg data_train data_test rest st')"

text \<open>
  \<open>go\<close>, given the three parts of the corpus that \<open>enwik8\<close> returns and the state of the two
  random sources when it is called.
\<close>

definition go ::
  "'m externals \<Rightarrow> config \<Rightarrow> nat list \<Rightarrow> nat list \<Rightarrow> nat list \<Rightarrow> int \<Rightarrow> gen \<Rightarrow> gen \<Rightarrow> error + 'm run" where
  "go ext cfg trX vaX teX seed torch0 py0 =
     (case seed_sources ext seed torch0 py0 of
        Inl e \<Rightarrow> Inl e
      | Inr (tg0, pg0) \<Rightarrow>
          (case select_data (final cfg) trX vaX teX of
             (data_train, data_test) \<Rightarrow>
               (case create_model ext tg0 of
                  (m, tg1) \<Rightarrow>
                    (case create_scheduler ext (num_batches cfg) of
                       Some e \<Rightarrow> Inl e
                     | None \<Rightarrow>
                         run_iters ext cfg data_train data_test [0..<nat (num_batches cfg)]
                           \<lparr>params = m, torch_gen = tg1, py_gen = pg0, instances_seen = 0,
                            trace = []\<rparr>))))"

section \<open>Reading a run\<close>

text \<open>
  The iterations that trained on a batch, that ran the sampling check and that ran the
  bits-per-byte evaluation, in the order of the events.
\<close>

definition trained_at :: "event list \<Rightarrow> nat list" where
  "trained_at es = [i. Trained i source target \<leftarrow> es]"

definition sampled_at :: "event list \<Rightarrow> nat list" where
  "sampled_at es = [i. Sampled i seedfr seed \<leftarrow> es]"

definition evaluated_at :: "event list \<Rightarrow> nat list" where
  "evaluated_at es = [i. Evaluated i data_sub bits_per_byte \<leftarrow> es]"

text \<open>The batches of a run, and the offsets \<open>seedfr\<close> of its sampling checks.\<close>

definition batches_of :: "event list \<Rightarrow> (nat list list \<times> nat list list) list" where
  "batches_of es = [(source, target). Trained i source target \<leftarrow> es]"


text \<open>
  Line 280 as a predicate on the iteration index, for a \<open>test_every\<close> that is not 0.
\<close>

definition evaluated_iteration :: "config \<Rightarrow> nat \<Rightarrow> bool" where
  "evaluated_iteration cfg i \<longleftrightarrow>
     i \<noteq> 0 \<and> (int i mod test_every cfg = 0 \<or> int i = num_batches cfg - 1)"

text \<open>
  The schedule of a run: the iterations that trained, that ran the sampling check and that
  ran the bits-per-byte evaluation; or the error.
\<close>

definition schedule_view :: "error + 'm run \<Rightarrow> error + (nat list \<times> nat list \<times> nat list)" where
  "schedule_view res =
     (case res of
        Inl e \<Rightarrow> Inl e
      | Inr st \<Rightarrow> Inr (trained_at (trace st), sampled_at (trace st), evaluated_at (trace st)))"



section \<open>A small run\<close>

text \<open>
  Concrete inputs for the examples: a model whose parameters are the number of training
  steps so far and whose output always has its maximum at index 1, a sampler that returns
  the raw value modulo 2, a seeding that puts the seed first, a scheduler with the default
  \<open>peak = 0.2\<close>, whose constructor raises for five steps, and a run of two iterations on
  batches of one row of one token.
\<close>

definition toy_lib :: torch_lib where
  "toy_lib = \<lparr>softmax = (\<lambda>xs. xs), categorical = (\<lambda>p r. r mod 2)\<rparr>"

definition toy_externals :: "nat externals" where
  "toy_externals =
     \<lparr>torch = toy_lib,
      manual_seed = (\<lambda>s. [nat s, 4, 1, 5, 9, 2, 6]),
      create_model = (\<lambda>g. (0, g)),
      one_cycle_lr = (\<lambda>total_steps. if total_steps = 5 then Some ZeroDivisionError else None),
      logits = (\<lambda>m input. [0, 1]),
      train_step = (\<lambda>m source target. Suc m),
      compute_compression = (\<lambda>m data_sub. 0)\<rparr>"

definition toy_config :: config where
  "toy_config =
     \<lparr>num_batches = 2, batch_size = 1, context_len = 1, test_every = 1, test_subset = 2,
      sample_length = 1, final = False\<rparr>"

section \<open>Properties of sample_batch\<close>

lemma slice_nth:
  assumes "0 \<le> s" "c < length (py_slice xs s e)"
  shows "nat s + c < length xs \<and> py_slice xs s e ! c = xs ! (nat s + c)"
proof -
  have a: "slice_index (length xs) s = min (length xs) (nat s)"
    using assms(1) by (simp add: slice_index_def)
  from assms(2) have c: "c < length (drop (min (length xs) (nat s)) xs)"
    by (simp add: py_slice_def Let_def a)
  then have "nat s < length xs" by (simp add: min_def split: if_splits)
  then have m: "min (length xs) (nat s) = nat s" by simp
  from c m have "nat s + c < length xs" by simp
  with assms(2) m show ?thesis
    by (simp add: py_slice_def Let_def a)
qed

lemma slice_len:
  assumes "0 \<le> s" "s \<le> e" "e \<le> int (length xs)"
  shows "length (py_slice xs s e) = nat (e - s)"
proof -
  have a: "slice_index (length xs) s = nat s" "slice_index (length xs) e = nat e"
    using assms by (simp_all add: slice_index_def)
  show ?thesis using assms by (simp add: py_slice_def Let_def a nat_diff_distrib)
qed

lemma take_raw_length: "take_raw n g = (raws, g') \<Longrightarrow> length raws = n"
  by (auto simp: take_raw_def)

lemma randint_range:
  assumes "torch_randint low high n g = Inr (starts, g')"
  shows "length starts = nat n \<and> (\<forall>s\<in>set starts. low \<le> s \<and> s < high) \<and> 0 \<le> n \<and> low < high"
proof -
  from assms have n: "0 \<le> n" and lh: "low < high"
    by (auto simp: torch_randint_def split: if_splits)
  obtain raws g1 where tr: "take_raw (nat n) g = (raws, g1)" by (cases "take_raw (nat n) g")
  with assms n lh have st: "starts = map (\<lambda>r. low + int (r mod nat (high - low))) raws"
    by (auto simp: torch_randint_def)
  have "low + int (r mod nat (high - low)) < high" for r :: nat
  proof -
    have "r mod nat (high - low) < nat (high - low)" using lh by simp
    then show ?thesis by linarith
  qed
  then show ?thesis using n lh st take_raw_length [OF tr] by auto
qed

lemma randint_total:
  assumes "0 \<le> n" "low < high"
  shows "\<exists>starts g'. torch_randint low high n g = Inr (starts, g')"
  using assms by (simp add: torch_randint_def split: prod.splits)

lemma cat_rows_Inr:
  "torch_cat_rows rows = Inr m \<Longrightarrow> m = rows \<and> rows \<noteq> []"
  by (simp add: torch_cat_rows_def split: if_splits)

lemma cat_rows_total:
  assumes "rows \<noteq> []" "\<forall>r\<in>set rows. length r = k"
  shows "torch_cat_rows rows = Inr rows"
proof -
  from assms have "hd rows \<in> set rows" by simp
  with assms(2) have "length (hd rows) = k" by blast
  with assms show ?thesis by (simp add: torch_cat_rows_def list_all_iff)
qed

lemma sample_batch_Inr:
  assumes "sample_batch data len bs g = Inr ((inputs, target), g')"
  shows "\<exists>starts. torch_randint 0 (int (length data) - len - 1) bs g = Inr (starts, g')
           \<and> inputs = map (\<lambda>start. py_slice data start (start + len)) starts
           \<and> target = map (\<lambda>start. py_slice data (start + 1) (start + len + 1)) starts"
  using assms
  by (auto simp: sample_batch_def Let_def dest!: cat_rows_Inr split: sum.splits prod.splits)

lemma sample_batch_total:
  assumes "0 \<le> len" "len + 1 < int (length data)" "1 \<le> bs"
  shows "\<exists>res. sample_batch data len bs g = Inr res"
proof -
  from assms obtain starts g' where
    r: "torch_randint 0 (int (length data) - len - 1) bs g = Inr (starts, g')"
    using randint_total [of bs 0 "int (length data) - len - 1" g] by auto
  from randint_range [OF r] assms have ne: "starts \<noteq> []"
    and rg: "\<forall>s\<in>set starts. 0 \<le> s \<and> s < int (length data) - len - 1" by auto
  have i: "\<forall>r\<in>set (map (\<lambda>start. py_slice data start (start + len)) starts). length r = nat len"
    using rg assms(1) by (auto simp: slice_len)
  have t: "\<forall>r\<in>set (map (\<lambda>start. py_slice data (start + 1) (start + len + 1)) starts). length r = nat len"
    using rg assms(1) by (auto simp: slice_len)
  show ?thesis
    using r ne cat_rows_total [OF _ i] cat_rows_total [OF _ t]
    by (simp add: sample_batch_def Let_def)
qed

text \<open>
  Claim C2. For a source sequence and \<open>(length, batch_size)\<close> with
  \<open>length + 1 < len(source)\<close> and \<open>batch_size \<ge> 1\<close>: the pair that \<open>sample_batch\<close> returns has
  \<open>batch_size\<close> rows, built from the start offsets that \<open>torch.randint\<close> drew. Every row
  \<open>r\<close> has \<open>0 \<le> start_r\<close> and \<open>start_r + length < len(source)\<close>, its input row holds
  \<open>source[start_r + c]\<close> and its target row \<open>source[start_r + c + 1]\<close> at every column \<open>c\<close>, and
  every index read lies inside the source. With \<open>length \<ge> 0\<close> the call does return a pair,
  and every row has \<open>length\<close> columns.
\<close>

theorem sample_batch_rows:
  fixes batch_size :: int
  assumes "len + 1 < int (length data)" and "1 \<le> batch_size"
  shows "(0 \<le> len \<longrightarrow> (\<exists>res. sample_batch data len batch_size g = Inr res)) \<and>
    (\<forall>inputs target g'.
       sample_batch data len batch_size g = Inr ((inputs, target), g') \<longrightarrow>
       (\<exists>starts.
          torch_randint 0 (int (length data) - len - 1) batch_size g = Inr (starts, g') \<and>
          length starts = nat batch_size \<and> length inputs = nat batch_size \<and>
          length target = nat batch_size \<and>
          (\<forall>r < nat batch_size.
             0 \<le> starts ! r \<and> starts ! r + len < int (length data) \<and>
             (0 \<le> len \<longrightarrow> length (inputs ! r) = nat len \<and> length (target ! r) = nat len) \<and>
             (\<forall>c < length (inputs ! r).
                nat (starts ! r) + c < length data \<and>
                inputs ! r ! c = data ! (nat (starts ! r) + c)) \<and>
             (\<forall>c < length (target ! r).
                nat (starts ! r) + c + 1 < length data \<and>
                target ! r ! c = data ! (nat (starts ! r) + c + 1)))))"
proof (intro conjI impI allI)
  assume "0 \<le> len"
  then show "\<exists>res. sample_batch data len batch_size g = Inr res"
    using assms by (rule sample_batch_total)
next
  fix inputs target g'
  assume ok: "sample_batch data len batch_size g = Inr ((inputs, target), g')"
  from sample_batch_Inr [OF ok] obtain starts where
    r: "torch_randint 0 (int (length data) - len - 1) batch_size g = Inr (starts, g')"
    and i: "inputs = map (\<lambda>start. py_slice data start (start + len)) starts"
    and t: "target = map (\<lambda>start. py_slice data (start + 1) (start + len + 1)) starts"
    by blast
  from randint_range [OF r] have n: "length starts = nat batch_size"
    and rg: "\<forall>s\<in>set starts. 0 \<le> s \<and> s < int (length data) - len - 1" by auto
  have row: "0 \<le> starts ! r \<and> starts ! r + len < int (length data) \<and>
             (0 \<le> len \<longrightarrow> length (inputs ! r) = nat len \<and> length (target ! r) = nat len) \<and>
             (\<forall>c < length (inputs ! r).
                nat (starts ! r) + c < length data \<and>
                inputs ! r ! c = data ! (nat (starts ! r) + c)) \<and>
             (\<forall>c < length (target ! r).
                nat (starts ! r) + c + 1 < length data \<and>
                target ! r ! c = data ! (nat (starts ! r) + c + 1))" if "r < nat batch_size" for r
  proof -
    from that n have rl: "r < length starts" by simp
    then have "starts ! r \<in> set starts" by simp
    with rg have s0: "0 \<le> starts ! r" and s1: "starts ! r < int (length data) - len - 1" by auto
    have ir: "inputs ! r = py_slice data (starts ! r) (starts ! r + len)"
      and tr: "target ! r = py_slice data (starts ! r + 1) (starts ! r + len + 1)"
      using rl by (simp_all add: i t)
    have a: "nat (starts ! r) + c < length data \<and> inputs ! r ! c = data ! (nat (starts ! r) + c)"
      if "c < length (inputs ! r)" for c
      using slice_nth [of "starts ! r" c data "starts ! r + len"] s0 that by (simp add: ir)
    have b: "nat (starts ! r) + c + 1 < length data \<and> target ! r ! c = data ! (nat (starts ! r) + c + 1)"
      if "c < length (target ! r)" for c
    proof -
      have "nat (starts ! r + 1) = nat (starts ! r) + 1" using s0 by simp
      then show ?thesis
        using slice_nth [of "starts ! r + 1" c data "starts ! r + len + 1"] s0 that
        by (simp add: tr add.commute add.left_commute)
    qed
    have c: "length (inputs ! r) = nat len \<and> length (target ! r) = nat len" if "0 \<le> len"
      using that s0 s1 by (simp add: ir tr slice_len)
    show ?thesis using s0 s1 a b c by auto
  qed
  show "\<exists>starts.
          torch_randint 0 (int (length data) - len - 1) batch_size g = Inr (starts, g') \<and>
          length starts = nat batch_size \<and> length inputs = nat batch_size \<and>
          length target = nat batch_size \<and>
          (\<forall>r < nat batch_size.
             0 \<le> starts ! r \<and> starts ! r + len < int (length data) \<and>
             (0 \<le> len \<longrightarrow> length (inputs ! r) = nat len \<and> length (target ! r) = nat len) \<and>
             (\<forall>c < length (inputs ! r).
                nat (starts ! r) + c < length data \<and>
                inputs ! r ! c = data ! (nat (starts ! r) + c)) \<and>
             (\<forall>c < length (target ! r).
                nat (starts ! r) + c + 1 < length data \<and>
                target ! r ! c = data ! (nat (starts ! r) + c + 1)))"
    using r n row by (intro exI [of _ starts]) (simp add: i t)
qed

theorem sample_batch_rows_witness:
  "(2::int) + 1 < int (length [10, 20, 30, 40, 50::nat]) \<and> (1::int) \<le> 3 \<and>
   sample_batch [10, 20, 30, 40, 50] 2 3 [5, 12, 19, 26] =
     Inr (([[20, 30], [10, 20], [20, 30]], [[30, 40], [20, 30], [30, 40]]), [26]) \<and>
   (\<exists>starts. torch_randint 0 (int (length [10, 20, 30, 40, 50::nat]) - 2 - 1) 3 [5, 12, 19, 26]
                = Inr (starts, [26]) \<and>
      length starts = 3 \<and> 0 \<le> starts ! 0 \<and> starts ! 0 + 2 < 5 \<and>
      [20, 30::nat] ! 1 = [10, 20, 30, 40, 50] ! (nat (starts ! 0) + 1) \<and>
      [30, 40::nat] ! 1 = [10, 20, 30, 40, 50] ! (nat (starts ! 0) + 1 + 1))"
proof -
  let ?data = "[10, 20, 30, 40, 50::nat]"
  let ?g = "[5, 12, 19, 26::nat]"
  let ?inputs = "[[20, 30], [10, 20], [20, 30::nat]]"
  let ?target = "[[30, 40], [20, 30], [30, 40::nat]]"
  have pre: "(2::int) + 1 < int (length ?data)" "(1::int) \<le> 3" by simp_all
  have run: "sample_batch ?data 2 3 ?g = Inr ((?inputs, ?target), [26])" by code_simp
  from sample_batch_rows [OF pre, of ?g] run obtain starts where
    s: "torch_randint 0 (int (length ?data) - 2 - 1) 3 ?g = Inr (starts, [26])"
       "length starts = nat 3"
    and rows: "\<forall>r < nat 3.
             0 \<le> starts ! r \<and> starts ! r + 2 < int (length ?data) \<and>
             (0 \<le> (2::int) \<longrightarrow> length (?inputs ! r) = nat 2 \<and> length (?target ! r) = nat 2) \<and>
             (\<forall>c < length (?inputs ! r).
                nat (starts ! r) + c < length ?data \<and>
                ?inputs ! r ! c = ?data ! (nat (starts ! r) + c)) \<and>
             (\<forall>c < length (?target ! r).
                nat (starts ! r) + c + 1 < length ?data \<and>
                ?target ! r ! c = ?data ! (nat (starts ! r) + c + 1))"
    by blast
  have "(0::nat) < nat 3" by simp
  note r0 = rows [rule_format, OF this]
  from r0 have b: "0 \<le> starts ! 0" "starts ! 0 + 2 < int (length ?data)" by blast+
  from r0 have ri: "\<forall>c < length (?inputs ! 0).
                nat (starts ! 0) + c < length ?data \<and>
                ?inputs ! 0 ! c = ?data ! (nat (starts ! 0) + c)"
    and rt: "\<forall>c < length (?target ! 0).
                nat (starts ! 0) + c + 1 < length ?data \<and>
                ?target ! 0 ! c = ?data ! (nat (starts ! 0) + c + 1)" by blast+
  have "1 < length (?inputs ! 0)" by simp
  from ri [rule_format, OF this] have i1: "[20, 30::nat] ! 1 = ?data ! (nat (starts ! 0) + 1)"
    by simp
  have "1 < length (?target ! 0)" by simp
  from rt [rule_format, OF this] have t1: "[30, 40::nat] ! 1 = ?data ! (nat (starts ! 0) + 1 + 1)"
    by simp
  show ?thesis
    using pre run s b i1 t1 by (intro conjI exI [of _ starts]) simp_all
qed

section \<open>Properties of sample\<close>

lemma argmax_from_spec:
  assumes "best < length ys" and "ys ! best = bv"
    and "\<forall>j < length ys. ys ! j \<le> bv" and "\<forall>j < best. ys ! j < bv"
  shows "argmax_from xs (length ys) best bv < length (ys @ xs) \<and>
         (\<forall>j < length (ys @ xs). (ys @ xs) ! j \<le> (ys @ xs) ! argmax_from xs (length ys) best bv) \<and>
         (\<forall>j < argmax_from xs (length ys) best bv.
            (ys @ xs) ! j < (ys @ xs) ! argmax_from xs (length ys) best bv)"
  using assms
proof (induction xs arbitrary: ys best bv)
  case Nil
  then show ?case by simp
next
  case (Cons x xs)
  show ?case
  proof (cases "bv < x")
    case True
    have a: "length ys < length (ys @ [x])" by simp
    have b: "(ys @ [x]) ! length ys = x" by simp
    have c: "\<forall>j < length (ys @ [x]). (ys @ [x]) ! j \<le> x"
      using Cons.prems(3) True by (auto simp: nth_append less_Suc_eq)
    have d: "\<forall>j < length ys. (ys @ [x]) ! j < x"
      using Cons.prems(3) True by (auto simp: nth_append)
    from Cons.IH [OF a b c d] True show ?thesis by simp
  next
    case False
    have a: "best < length (ys @ [x])" using Cons.prems(1) by simp
    have b: "(ys @ [x]) ! best = bv" using Cons.prems(1,2) by (simp add: nth_append)
    have c: "\<forall>j < length (ys @ [x]). (ys @ [x]) ! j \<le> bv"
      using Cons.prems(3) False by (auto simp: nth_append less_Suc_eq)
    have d: "\<forall>j < best. (ys @ [x]) ! j < bv"
      using Cons.prems(1,4) by (auto simp: nth_append)
    from Cons.IH [OF a b c d] False show ?thesis by simp
  qed
qed

lemma argmax_spec:
  assumes "xs \<noteq> []"
  shows "\<exists>i < length xs. argmax xs = Inr i \<and> (\<forall>j < length xs. xs ! j \<le> xs ! i) \<and>
           (\<forall>j < i. xs ! j < xs ! i)"
proof -
  from assms obtain x rest where xs: "xs = x # rest" by (cases xs) auto
  have "argmax_from rest (length [x]) 0 x < length ([x] @ rest) \<and>
         (\<forall>j < length ([x] @ rest). ([x] @ rest) ! j \<le> ([x] @ rest) ! argmax_from rest (length [x]) 0 x) \<and>
         (\<forall>j < argmax_from rest (length [x]) 0 x.
            ([x] @ rest) ! j < ([x] @ rest) ! argmax_from rest (length [x]) 0 x)"
    by (rule argmax_from_spec) simp_all
  then show ?thesis by (simp add: xs argmax_def)
qed

text \<open>
  Claim C7. For every log-probability vector (one entry at least),
  \<open>sample(lnprobs, temperature=0.0)\<close> returns the index of the maximum log-probability, the
  first such index. The index is the same for every invocation, whatever the library's
  sampler would do and whatever the state of the generator, and the generator after the
  call is the generator before it: no random value is drawn.
\<close>

theorem sample_greedy:
  assumes "lnprobs \<noteq> []"
  shows "\<exists>i < length lnprobs.
           (\<forall>j < length lnprobs. lnprobs ! j \<le> lnprobs ! i) \<and>
           (\<forall>j < i. lnprobs ! j < lnprobs ! i) \<and>
           (\<forall>lib g. sample lib lnprobs 0 g = Inr (i, g))"
proof -
  from argmax_spec [OF assms] obtain i where "i < length lnprobs" "argmax lnprobs = Inr i"
    "\<forall>j < length lnprobs. lnprobs ! j \<le> lnprobs ! i" "\<forall>j < i. lnprobs ! j < lnprobs ! i"
    by blast
  then show ?thesis by (intro exI [of _ i]) (simp add: sample_def)
qed

theorem sample_greedy_witness:
  "[1, 3, 2, 3::real] \<noteq> [] \<and>
   sample \<lparr>softmax = (\<lambda>xs. xs), categorical = (\<lambda>p r. r)\<rparr> [1, 3, 2, 3] 0 [7, 8] = Inr (1, [7, 8]) \<and>
   sample \<lparr>softmax = (\<lambda>xs. []), categorical = (\<lambda>p r. 0)\<rparr> [1, 3, 2, 3] 0 [] = Inr (1, []) \<and>
   [1, 3, 2, 3::real] ! 3 \<le> [1, 3, 2, 3] ! 1 \<and> [1, 3, 2, 3::real] ! 0 < [1, 3, 2, 3] ! 1"
proof -
  let ?v = "[1, 3, 2, 3::real]"
  let ?lib = "\<lparr>softmax = (\<lambda>xs. xs), categorical = (\<lambda>p r. r)\<rparr>"
  have ne: "?v \<noteq> []" by simp
  from sample_greedy [OF ne] obtain i where i: "i < length ?v"
    and mx: "\<forall>j < length ?v. ?v ! j \<le> ?v ! i" and fst: "\<forall>j < i. ?v ! j < ?v ! i"
    and run: "\<forall>lib g. sample lib ?v 0 g = Inr (i, g)" by blast
  have "sample ?lib ?v 0 [7, 8] = Inr (1, [7, 8])" by (simp add: sample_def argmax_def)
  with run have i1: "i = 1" by simp
  have "(3::nat) < length ?v" "(0::nat) < 1" by simp_all
  with mx fst i1 have "?v ! 3 \<le> ?v ! 1" "?v ! 0 < ?v ! 1" by blast+
  with ne run i1 show ?thesis by blast
qed

text \<open>
  Claim C10. For every log-probability vector and every temperature, \<open>sample\<close> never
  divides by a zero temperature: with temperature 0.0 it returns what the argmax branch
  gives, before the division, and in every other call the divisor is not zero.
\<close>

theorem sample_division_guarded:
  "sample lib lnprobs temperature g \<noteq> Inl TensorDivByZero \<and>
   sample lib lnprobs 0 g = (case argmax lnprobs of Inl e \<Rightarrow> Inl e | Inr i \<Rightarrow> Inr (i, g))"
  by (cases lnprobs) (simp_all add: sample_def argmax_def tensor_div_def split: prod.splits)

section \<open>Properties of sample_sequence\<close>

lemma sample_loop_frame:
  assumes "sample_loop lib model max_context temperature n (h, sequence, g) = Inr (h', sequence', g')"
    and "sequence < length h"
  shows "take (length h) h' = h \<and> length h' = length h + n \<and> sequence' < length h' \<and>
         length (h' ! sequence') = length (h ! sequence) + n \<and>
         take (length (h ! sequence)) (h' ! sequence') = h ! sequence"
  using assms
proof (induction n arbitrary: h sequence g)
  case 0
  then show ?case by simp
next
  case (Suc n)
  from Suc.prems(1) obtain c g1 where
    s: "sample lib (model (py_slice_from (h ! sequence) (- max_context))) temperature g = Inr (c, g1)"
    and l: "sample_loop lib model max_context temperature n
              (h @ [h ! sequence @ [c]], length h, g1) = Inr (h', sequence', g')"
    by (auto simp: Let_def cat_token_def split: sum.splits prod.splits)
  have "length h < length (h @ [h ! sequence @ [c]])" by simp
  from Suc.IH [OF l this] have
    a: "take (length (h @ [h ! sequence @ [c]])) h' = h @ [h ! sequence @ [c]]"
    and b: "length h' = length (h @ [h ! sequence @ [c]]) + n"
    and c: "sequence' < length h'"
    and d: "length (h' ! sequence') = length ((h @ [h ! sequence @ [c]]) ! length h) + n"
    and e: "take (length ((h @ [h ! sequence @ [c]]) ! length h)) (h' ! sequence')
              = (h @ [h ! sequence @ [c]]) ! length h"
    by blast+
  from a have "take (length h) (take (length (h @ [h ! sequence @ [c]])) h') = h" by simp
  then have a': "take (length h) h' = h" by (simp add: min_def)
  from e have "take (length (h ! sequence)) (take (Suc (length (h ! sequence))) (h' ! sequence'))
                 = h ! sequence" by simp
  then have e': "take (length (h ! sequence)) (h' ! sequence') = h ! sequence"
    by (simp add: min_def)
  from a' b c d e' show ?case by simp
qed

text \<open>
  Claim C9. For every seed sequence and every length, \<open>sample_sequence\<close> leaves the seed
  unchanged: when it returns, the tensor the seed refers to has the contents it had before
  the call, and so has every other tensor that existed before the call (the copy and every
  extension of it are new tensors).
\<close>

theorem sample_sequence_seed_unchanged:
  assumes "seed < length h"
  shows "\<forall>r h' g'.
           sample_sequence lib model h seed max_context len temperature g = Inr (r, h', g') \<longrightarrow>
           h' ! seed = h ! seed \<and> take (length h) h' = h"
proof (intro allI impI)
  fix r h' g'
  assume "sample_sequence lib model h seed max_context len temperature g = Inr (r, h', g')"
  then obtain s' where
    l: "sample_loop lib model max_context temperature (nat len) (h @ [h ! seed], length h, g)
          = Inr (h', s', g')"
    by (auto simp: sample_sequence_def clone_def split: sum.splits prod.splits)
  have "length h < length (h @ [h ! seed])" by simp
  from sample_loop_frame [OF l this] have "take (length (h @ [h ! seed])) h' = h @ [h ! seed]"
    by blast
  then have "take (length h) (take (length (h @ [h ! seed])) h') = h" by simp
  then have t: "take (length h) h' = h" by (simp add: min_def)
  have "take (length h) h' ! seed = h' ! seed" using assms by simp
  with t show "h' ! seed = h ! seed \<and> take (length h) h' = h" by simp
qed

text \<open>
  A run of the theorem: a vocabulary of two tokens, a model whose logits are \<open>[0, 0]\<close>, of
  which the softmax is \<open>[1 / 2, 1 / 2]\<close>, a sampler that returns the raw value modulo 2, the
  seed \<open>[1, 0]\<close> and two tokens to sample at temperature 0.5.
\<close>

theorem sample_sequence_seed_unchanged_witness:
  "(0::nat) < length [[1, 0::nat]] \<and>
   sample_sequence \<lparr>softmax = (\<lambda>xs. [1 / 2, 1 / 2]), categorical = (\<lambda>p r. r mod 2)\<rparr>
       (\<lambda>input. [0, 0]) [[1, 0]] 0 1 2 (1 / 2) [33, 46] =
     Inr (0, [[1, 0], [1, 0], [1, 0, 1], [1, 0, 1, 0]], []) \<and>
   [[1, 0], [1, 0], [1, 0, 1], [1, 0, 1, 0]] ! 0 = [[1, 0::nat]] ! 0 \<and>
   take (length [[1, 0::nat]]) [[1, 0], [1, 0], [1, 0, 1], [1, 0, 1, 0::nat]] = [[1, 0]]"
proof -
  let ?lib = "\<lparr>softmax = (\<lambda>xs. [1 / 2, 1 / 2]), categorical = (\<lambda>p r. r mod 2)\<rparr>"
  let ?h = "[[1, 0::nat]]"
  let ?h' = "[[1, 0], [1, 0], [1, 0, 1], [1, 0, 1, 0::nat]]"
  have pre: "(0::nat) < length ?h" by simp
  have run: "sample_sequence ?lib (\<lambda>input. [0, 0]) ?h 0 1 2 (1 / 2) [33, 46] = Inr (0, ?h', [])"
    by code_simp
  from sample_sequence_seed_unchanged [OF pre, of ?lib "\<lambda>input. [0, 0]" 1 2 "1 / 2" "[33, 46]"] run
  have "?h' ! 0 = ?h ! 0 \<and> take (length ?h) ?h' = ?h" by blast
  with pre run show ?thesis by blast
qed

text \<open>
  What \<open>sample_sequence\<close> returns, for every input: the reference of the seed, whose
  contents are the seed's, while the sequence that the loop built (the last tensor of the
  store) is the seed and \<open>length\<close> more tokens.
\<close>

lemma sample_loop_last:
  assumes "sample_loop lib model max_context temperature n (h, sequence, g) = Inr (h', sequence', g')"
    and "Suc sequence = length h"
  shows "Suc sequence' = length h'"
  using assms
proof (induction n arbitrary: h sequence g)
  case 0
  then show ?case by simp
next
  case (Suc n)
  from Suc.prems(1) obtain c g1 where
    l: "sample_loop lib model max_context temperature n
              (h @ [h ! sequence @ [c]], length h, g1) = Inr (h', sequence', g')"
    by (auto simp: Let_def cat_token_def split: sum.splits prod.splits)
  have "Suc (length h) = length (h @ [h ! sequence @ [c]])" by simp
  from Suc.IH [OF l this] show ?case .
qed

lemma sample_sequence_returns_seed:
  assumes "sample_sequence lib model h seed max_context len temperature g = Inr (r, h', g')"
    and "seed < length h"
  shows "r = seed \<and> h' ! r = h ! seed \<and> length (last h') = length (h ! seed) + nat len \<and>
         take (length (h ! seed)) (last h') = h ! seed"
proof -
  from assms(1) obtain s' where
    l: "sample_loop lib model max_context temperature (nat len) (h @ [h ! seed], length h, g)
          = Inr (h', s', g')"
    and r: "r = seed"
    by (auto simp: sample_sequence_def clone_def split: sum.splits prod.splits)
  have lt: "length h < length (h @ [h ! seed])" by simp
  from sample_loop_frame [OF l lt] have
    t: "take (length (h @ [h ! seed])) h' = h @ [h ! seed]"
    and n: "length h' = length (h @ [h ! seed]) + nat len"
    and a: "length (h' ! s') = length ((h @ [h ! seed]) ! length h) + nat len"
    and b: "take (length ((h @ [h ! seed]) ! length h)) (h' ! s') = (h @ [h ! seed]) ! length h"
    by blast+
  have "Suc (length h) = length (h @ [h ! seed])" by simp
  from sample_loop_last [OF l this] have s: "Suc s' = length h'" .
  from n have ne: "h' \<noteq> []" by auto
  from s have "length h' - 1 = s'" by simp
  with ne have last: "last h' = h' ! s'" by (simp add: last_conv_nth)
  from t have "take (length h) (take (length (h @ [h ! seed])) h') = h" by simp
  then have "take (length h) h' = h" by (simp add: min_def)
  moreover have "take (length h) h' ! seed = h' ! seed" using assms(2) by simp
  ultimately have "h' ! seed = h ! seed" by simp
  with r a b last show ?thesis by simp
qed

text \<open>
  Claim C1 says that \<open>sample_sequence\<close> returns the seed followed by the sampled tokens, as
  the docstring of the source does (it returns the sampled sequence, including the seed). The
  source returns \<open>seed\<close>: for the seed \<open>[72, 105]\<close>, \<open>max_context = 1\<close>, \<open>length = 1\<close>,
  temperature 0.0 and a model whose output always has its maximum at index 1, the loop
  builds \<open>[72, 105, 1]\<close> as a new tensor (reference 2), and the call returns reference 0,
  whose contents are \<open>[72, 105]\<close>.
\<close>

theorem sample_sequence_returns_seed_only:
  "sample_sequence \<lparr>softmax = (\<lambda>xs. xs), categorical = (\<lambda>p r. r mod 256)\<rparr>
       (\<lambda>input. [0, 1]) [[72, 105]] 0 1 1 0 [] =
     Inr (0, [[72, 105], [72, 105], [72, 105, 1]], []) \<and>
   [[72, 105], [72, 105], [72, 105, 1::nat]] ! 0 = [72, 105] \<and>
   [[72, 105], [72, 105], [72, 105, 1::nat]] ! 0 \<noteq> [72, 105] @ [1]"
  by code_simp

section \<open>Properties of the floats\<close>

text \<open>
  The binary exponent is the one of its specification, and rounding a real number of
  magnitude \<open>2 ^ 1001\<close> at most gives a finite float with a relative error of \<open>2 ^ -53\<close> at
  most, and an absolute error of \<open>2 ^ -1075\<close> at most among the subnormal numbers.
\<close>

lemma expo_bounds:
  assumes "0 < a"
  shows "2 powi expo a \<le> a \<and> a < 2 powi (expo a + 1)"
  using assms
proof (induction a rule: expo.induct)
  case (1 a)
  show ?case
  proof (cases "2 \<le> a")
    case True
    then have e: "expo a = expo (a / 2) + 1" using 1(3) by (subst expo.simps) simp
    from "1.IH"(1) True 1(3) have ih: "2 powi expo (a / 2) \<le> a / 2" "a / 2 < 2 powi (expo (a / 2) + 1)"
      by simp_all
    have p: "(2::real) powi (expo (a / 2) + 1 + 1) = 2 powi (expo (a / 2) + 1) * 2"
      by (rule power_int_add_1) simp
    have q: "(2::real) powi (expo (a / 2) + 1) = 2 powi expo (a / 2) * 2"
      by (rule power_int_add_1) simp
    from ih p q show ?thesis unfolding e by linarith
  next
    case False
    show ?thesis
    proof (cases "a < 1")
      case True
      then have e: "expo a = expo (a * 2) - 1" using False 1(3) by (subst expo.simps) simp
      from "1.IH"(2) True False 1(3) have ih: "2 powi expo (a * 2) \<le> a * 2"
        "a * 2 < 2 powi (expo (a * 2) + 1)" by simp_all
      have p: "(2::real) powi (expo (a * 2) - 1) * 2 = 2 powi expo (a * 2)"
        by (rule power_int_minus_mult) simp
      have q: "(2::real) powi (expo (a * 2) + 1) = 2 powi expo (a * 2) * 2"
        by (rule power_int_add_1) simp
      have r: "expo (a * 2) - 1 + 1 = expo (a * 2)" by simp
      from ih p q show ?thesis unfolding e r by linarith
    next
      case nl: False
      with False 1(3) have e: "expo a = 0" by (subst expo.simps) simp
      from nl False show ?thesis unfolding e by simp
    qed
  qed
qed

lemma expo_unique:
  assumes "0 < a" and "2 powi e \<le> a" and "a < 2 powi (e + 1)"
  shows "expo a = e"
proof (rule ccontr)
  assume ne: "expo a \<noteq> e"
  from expo_bounds [OF assms(1)] have b: "2 powi expo a \<le> a" "a < 2 powi (expo a + 1)" by simp_all
  show False
  proof (cases "expo a < e")
    case True
    then have "(2::real) powi (expo a + 1) \<le> 2 powi e" by (intro power_int_increasing) simp_all
    with b assms show False by linarith
  next
    case False
    with ne have "(2::real) powi (e + 1) \<le> 2 powi expo a" by (intro power_int_increasing) simp_all
    with b assms show False by linarith
  qed
qed

lemma rne_error: "\<bar>of_int (rne t) - t\<bar> \<le> 1 / 2"
proof -
  have "of_int \<lfloor>t\<rfloor> \<le> t" "t < of_int \<lfloor>t\<rfloor> + 1" by linarith+
  then show ?thesis by (auto simp: rne_def Let_def)
qed

lemma max_float_ge: "2 ^ 1023 \<le> max_float"
proof -
  have "(2::real) powi (- 52) \<le> 2 powi 0" by (intro power_int_increasing) simp_all
  then have "(1::real) \<le> 2 - 2 powi (- 52)" by simp
  then have "1 * (2::real) ^ 1023 \<le> (2 - 2 powi (- 52)) * 2 ^ 1023"
    by (intro mult_right_mono) simp_all
  then show ?thesis by (simp only: max_float_def mult_1)
qed

lemma quantum_pos: "0 < quantum z"
  unfolding quantum_def by (rule zero_less_power_int) simp

lemma round64_grid_error:
  "\<bar>of_int (rne (z / quantum z)) * quantum z - z\<bar> \<le> quantum z / 2"
proof -
  let ?q = "quantum z"
  let ?m = "of_int (rne (z / ?q)) :: real"
  have q: "0 < ?q" by (rule quantum_pos)
  then have "?m * ?q - z = (?m - z / ?q) * ?q" by (simp add: left_diff_distrib)
  then have "\<bar>?m * ?q - z\<bar> = \<bar>?m - z / ?q\<bar> * \<bar>?q\<bar>" by (simp only: abs_mult)
  also have "\<bar>?q\<bar> = ?q" using q by simp
  also have "\<bar>?m - z / ?q\<bar> * ?q \<le> 1 / 2 * ?q"
    using q rne_error [of "z / ?q"] by (intro mult_right_mono) simp_all
  finally show ?thesis by simp
qed

lemma quantum_half_le:
  assumes "z \<noteq> 0"
  shows "quantum z / 2 \<le> 2 powi (- 53) * \<bar>z\<bar> + 2 powi (- 1075)"
proof -
  from assms have "0 < \<bar>z\<bar>" by simp
  from expo_bounds [OF this] have b: "2 powi expo \<bar>z\<bar> \<le> \<bar>z\<bar>" by simp
  have h: "(2::real) powi (k - 52) / 2 = 2 powi (k - 53)" for k :: int
    using power_int_minus_mult [of "2::real" "k - 52"] by (simp add: field_simps)
  show ?thesis
  proof (cases "- 1022 \<le> expo \<bar>z\<bar>")
    case True
    then have "quantum z / 2 = 2 powi (expo \<bar>z\<bar> - 53)" by (simp add: quantum_def h max_def)
    also have "\<dots> = 2 powi (- 53) * 2 powi expo \<bar>z\<bar>"
      using power_int_add [of "2::real" "- 53" "expo \<bar>z\<bar>"] by simp
    also have "\<dots> \<le> 2 powi (- 53) * \<bar>z\<bar>"
      using b by (intro mult_left_mono) simp_all
    also have "\<dots> \<le> 2 powi (- 53) * \<bar>z\<bar> + 2 powi (- 1075)" by simp
    finally show ?thesis .
  next
    case False
    then have "quantum z / 2 = 2 powi (- 1022 - 53)" by (simp only: quantum_def h max_def) simp
    then have "quantum z / 2 = 2 powi (- 1075)" by simp
    moreover have "0 \<le> 2 powi (- 53) * \<bar>z\<bar>" by simp
    ultimately show ?thesis by linarith
  qed
qed

lemma round64_Finite:
  assumes "\<bar>of_int (rne (z / quantum z)) * quantum z\<bar> \<le> max_float"
  shows "round64 z = Finite (of_int (rne (z / quantum z)) * quantum z)"
  using assms by (simp add: round64_def Let_def abs_le_iff not_less)

lemma small_powers: "(2::real) powi (- 53) \<le> 1" "(2::real) powi (- 1075) \<le> 1"
  using power_int_increasing [of "- 53" 0 "2::real"] power_int_increasing [of "- 1075" 0 "2::real"]
  by simp_all

lemma round64_error:
  assumes "\<bar>z\<bar> \<le> 2 ^ 1001"
  shows "\<exists>r. round64 z = Finite r \<and> \<bar>r - z\<bar> \<le> 2 powi (- 53) * \<bar>z\<bar> + 2 powi (- 1075)"
proof (cases "z = 0")
  case True
  have "rne 0 = 0" by (simp add: rne_def)
  then have r: "of_int (rne (z / quantum z)) * quantum z = 0" using True by simp
  have "(0::real) \<le> max_float" using max_float_ge by (rule order_trans [rotated]) simp
  then have "\<bar>of_int (rne (z / quantum z)) * quantum z\<bar> \<le> max_float" by (simp only: r abs_zero)
  from round64_Finite [OF this] have "round64 z = Finite 0" by (simp only: r)
  with True show ?thesis by simp
next
  case False
  let ?r = "of_int (rne (z / quantum z)) * quantum z"
  from round64_grid_error [of z] quantum_half_le [OF False]
  have e: "\<bar>?r - z\<bar> \<le> 2 powi (- 53) * \<bar>z\<bar> + 2 powi (- 1075)" by linarith
  have "2 powi (- 53) * \<bar>z\<bar> \<le> 1 * \<bar>z\<bar>"
    using small_powers(1) by (intro mult_right_mono) simp_all
  with e small_powers(2) have "\<bar>?r\<bar> \<le> \<bar>z\<bar> + \<bar>z\<bar> + 1" by linarith
  also have "\<dots> \<le> 2 ^ 1001 + 2 ^ 1001 + 2 ^ 1001" using assms by simp
  also have "\<dots> \<le> (2::real) ^ 1023" by simp
  also have "\<dots> \<le> max_float" by (rule max_float_ge)
  finally have "round64 z = Finite ?r" by (rule round64_Finite)
  with e show ?thesis by blast
qed

text \<open>The float nearest to a number of which the binary exponent is known.\<close>

lemma round64_eval:
  assumes "2 powi e \<le> \<bar>z\<bar>" and "\<bar>z\<bar> < 2 powi (e + 1)" and "- 1022 \<le> e" and "e \<le> 1000"
    and "rne (z / 2 powi (e - 52)) = m"
  shows "round64 z = Finite (of_int m * 2 powi (e - 52))"
proof -
  have "(0::real) < 2 powi e" by (rule zero_less_power_int) simp
  with assms(1) have pos: "0 < \<bar>z\<bar>" by linarith
  from expo_unique [OF pos assms(1,2)] assms(3) have q: "quantum z = 2 powi (e - 52)"
    by (simp add: quantum_def max_def)
  have "(2::real) powi (e + 1) \<le> 2 powi 1001" using assms(4) by (intro power_int_increasing) simp_all
  with assms(2) have "\<bar>z\<bar> \<le> 2 ^ 1001" by simp
  from round64_error [OF this] obtain r where "round64 z = Finite r" by blast
  then have "round64 z = Finite (of_int (rne (z / quantum z)) * quantum z)"
    by (auto simp: round64_def Let_def split: if_splits)
  with q assms(5) show ?thesis by simp
qed

section \<open>Properties of ema_update\<close>

text \<open>
  The float of the literal \<open>0.99\<close> is \<open>4458563631096791 / 2 ^ 52\<close>, and \<open>1 - 0.99\<close> is the
  float \<open>45035996273705 / 2 ^ 52\<close>, with no rounding. With them, \<open>ema_update\<close> on finite
  floats is two rounded products and their rounded sum.
\<close>

lemma lit99: "float_literal 0.99 = Float64 (Finite (4458563631096791 / 4503599627370496))"
proof -
  have "round64 0.99 = Finite (of_int 8917127262193582 * 2 powi (- 1 - 52))"
    by (rule round64_eval) (simp_all add: rne_def)
  then show ?thesis by (simp add: float_literal_def)
qed

lemma one_minus_lit99:
  "1 - Float64 (Finite (4458563631096791 / 4503599627370496))
     = Float64 (Finite (45035996273705 / 4503599627370496))"
proof -
  have r: "round64 (45035996273705 / 4503599627370496)
          = Finite (of_int 5764607523034240 * 2 powi (- 7 - 52))"
    by (rule round64_eval) (simp_all add: rne_def)
  have "Finite 1 - Finite (4458563631096791 / 4503599627370496)
          = Finite (45035996273705 / 4503599627370496)"
    by (simp add: minus_pyfloat_def)
  then have "1 - Float64 (Finite (4458563631096791 / 4503599627370496))
          = Float64 (round64 (45035996273705 / 4503599627370496))"
    by (simp only: one_float64_def minus_float64.simps rounded.simps)
  also have "\<dots> = Float64 (Finite (45035996273705 / 4503599627370496))"
    by (simp add: r)
  finally show ?thesis .
qed

lemma ema_update_float64:
  assumes "round64 (4458563631096791 / 4503599627370496 * x) = Finite p1"
    and "round64 (45035996273705 / 4503599627370496 * L) = Finite p2"
    and "round64 (p1 + p2) = Finite e"
  shows "ema_update (Float64 (Finite x)) (Float64 (Finite L)) (float_literal 0.99) = Float64 (Finite e)"
proof -
  have "ema_update (Float64 (Finite x)) (Float64 (Finite L)) (float_literal 0.99)
          = float_literal 0.99 * Float64 (Finite x) + (1 - float_literal 0.99) * Float64 (Finite L)"
    by (simp only: ema_update_def)
  also have "\<dots> = Float64 (Finite (4458563631096791 / 4503599627370496)) * Float64 (Finite x)
                   + Float64 (Finite (45035996273705 / 4503599627370496)) * Float64 (Finite L)"
    by (simp only: lit99 one_minus_lit99)
  also have "\<dots> = Float64 (Finite e)"
    using assms by (simp only: times_float64.simps plus_float64.simps
        times_pyfloat.simps plus_pyfloat.simps rounded.simps)
  finally show ?thesis .
qed

lemma rounding_slack:
  "4 * (2::real) powi (- 1075) \<le> 2 powi (- 53) / 2 * 2 powi (- 1000)"
proof -
  have a: "4 * (2::real) powi (- 1075) = 2 powi (- 1073)"
    using power_int_add [of "2::real" 2 "- 1075"] by simp
  have b: "(2::real) powi (- 53) / 2 = 2 powi (- 54)"
    using power_int_minus_mult [of "2::real" "- 53"] by (simp add: field_simps)
  have c: "(2::real) powi (- 54) * 2 powi (- 1000) = 2 powi (- 1054)"
    using power_int_add [of "2::real" "- 54" "- 1000"] by simp
  have "(2::real) powi (- 1073) \<le> 2 powi (- 1054)" by (intro power_int_increasing) simp_all
  then show ?thesis by (simp only: a b c)
qed

lemma ema_update_float64_error:
  fixes x L :: real
  assumes lo: "2 powi (- 1000) \<le> max \<bar>x\<bar> \<bar>L\<bar>" and hi: "max \<bar>x\<bar> \<bar>L\<bar> \<le> 2 ^ 1000"
  shows "\<exists>e. ema_update (Float64 (Finite x)) (Float64 (Finite L)) (float_literal 0.99) = Float64 (Finite e) \<and>
           \<bar>e - (4458563631096791 / 4503599627370496 * x + 45035996273705 / 4503599627370496 * L)\<bar>
             \<le> 3 * 2 powi (- 53) * max \<bar>x\<bar> \<bar>L\<bar>"
proof -
  define B :: real where "B = 4458563631096791 / 4503599627370496"
  define C :: real where "C = 45035996273705 / 4503599627370496"
  define u :: real where "u = 2 powi (- 53)"
  define h :: real where "h = 2 powi (- 1075)"
  define M where "M = max \<bar>x\<bar> \<bar>L\<bar>"
  define a where "a = u * M"
  have B: "0 \<le> B" "0 \<le> C" "B + C = 1" by (simp_all add: B_def C_def)
  have u: "0 \<le> u" "u \<le> 1 / 2"
    using power_int_increasing [of "- 53" "- 1" "2::real"] by (simp_all add: u_def)
  have h: "0 \<le> h" by (simp add: h_def)
  have M: "0 \<le> M" "\<bar>x\<bar> \<le> M" "\<bar>L\<bar> \<le> M" "M \<le> 2 ^ 1000" "2 powi (- 1000) \<le> M"
    using lo hi by (simp_all add: M_def)
  have a: "0 \<le> a" using u M by (simp add: a_def)
  have slack: "4 * h \<le> a / 2"
  proof -
    have "4 * h \<le> u / 2 * 2 powi (- 1000)" using rounding_slack by (simp only: h_def u_def)
    also have "\<dots> \<le> u / 2 * M" using u M(5) by (intro mult_left_mono) simp_all
    finally show ?thesis by (simp add: a_def)
  qed
  have Bx: "\<bar>B * x\<bar> \<le> B * M" using B M by (simp add: abs_mult mult_left_mono)
  have CL: "\<bar>C * L\<bar> \<le> C * M" using B M by (simp add: abs_mult mult_left_mono)
  have BM: "B * M \<le> M" "C * M \<le> M"
    using B M(1) mult_right_mono [of B 1 M] mult_right_mono [of C 1 M] by simp_all
  have big: "(2::real) ^ 1000 \<le> 2 ^ 1001" by simp
  from Bx BM M big have "\<bar>B * x\<bar> \<le> 2 ^ 1001" by linarith
  from round64_error [OF this] obtain p1 where
    p1: "round64 (B * x) = Finite p1" and e1: "\<bar>p1 - B * x\<bar> \<le> u * \<bar>B * x\<bar> + h"
    unfolding u_def h_def by blast
  from CL BM M big have "\<bar>C * L\<bar> \<le> 2 ^ 1001" by linarith
  from round64_error [OF this] obtain p2 where
    p2: "round64 (C * L) = Finite p2" and e2: "\<bar>p2 - C * L\<bar> \<le> u * \<bar>C * L\<bar> + h"
    unfolding u_def h_def by blast
  have uB: "u * \<bar>B * x\<bar> \<le> u * (B * M)" using u Bx by (intro mult_left_mono) simp_all
  have uC: "u * \<bar>C * L\<bar> \<le> u * (C * M)" using u CL by (intro mult_left_mono) simp_all
  have split: "u * (B * M) + u * (C * M) = a"
  proof -
    have "u * (B * M) + u * (C * M) = u * ((B + C) * M)" by (simp add: algebra_simps)
    then show ?thesis by (simp add: B a_def)
  qed
  have halves: "u * a \<le> a / 2" "u * h \<le> h / 2"
    using u a h mult_right_mono [of u "1 / 2" a] mult_right_mono [of u "1 / 2" h] by simp_all
  have a_small: "a \<le> M / 2" using u M(1) mult_right_mono [of u "1 / 2" M] by (simp add: a_def)
  have h_small: "h \<le> 1" using small_powers(2) by (simp add: h_def)
  have sum_exact: "B * M + C * M = M"
  proof -
    have "B * M + C * M = (B + C) * M" by (simp add: algebra_simps)
    then show ?thesis by (simp add: B)
  qed
  have s_bound: "\<bar>p1 + p2\<bar> \<le> M + a + 2 * h"
    using e1 e2 uB uC split Bx CL sum_exact by linarith
  have "(2::real) ^ 1000 + 2 ^ 1000 / 2 + 2 \<le> 2 ^ 1001" by simp
  with s_bound a_small h_small M have "\<bar>p1 + p2\<bar> \<le> 2 ^ 1001" by linarith
  from round64_error [OF this] obtain e where
    e: "round64 (p1 + p2) = Finite e" and e3: "\<bar>e - (p1 + p2)\<bar> \<le> u * \<bar>p1 + p2\<bar> + h"
    unfolding u_def h_def by blast
  have "u * \<bar>p1 + p2\<bar> \<le> u * (M + a + 2 * h)" using u s_bound by (intro mult_left_mono) simp_all
  also have "\<dots> = a + u * a + 2 * (u * h)" by (simp add: a_def algebra_simps)
  finally have e3': "u * \<bar>p1 + p2\<bar> \<le> a + a / 2 + h" using halves by linarith
  have total: "\<bar>e - (B * x + C * L)\<bar> \<le> 3 * a"
    using e1 e2 e3 e3' uB uC split slack by linarith
  have run: "ema_update (Float64 (Finite x)) (Float64 (Finite L)) (float_literal 0.99) = Float64 (Finite e)"
    using p1 p2 e unfolding B_def C_def by (rule ema_update_float64)
  from total have "\<bar>e - (4458563631096791 / 4503599627370496 * x + 45035996273705 / 4503599627370496 * L)\<bar>
             \<le> 3 * 2 powi (- 53) * max \<bar>x\<bar> \<bar>L\<bar>"
    by (simp only: B_def C_def a_def u_def M_def mult.assoc)
  with run show ?thesis by blast
qed

lemma ema_update_float64_zero:
  "ema_update (Float64 (Finite 0)) (Float64 (Finite 0)) (float_literal 0.99) = Float64 (Finite 0)"
proof -
  have "rne 0 = 0" by (simp add: rne_def)
  then have r: "of_int (rne (0 / quantum 0)) * quantum 0 = 0" by simp
  have "(0::real) \<le> max_float" using max_float_ge by (rule order_trans [rotated]) simp
  then have "\<bar>of_int (rne (0 / quantum 0)) * quantum 0\<bar> \<le> max_float" by (simp only: r abs_zero)
  from round64_Finite [OF this] have z: "round64 0 = Finite 0" by (simp only: r)
  have "round64 (4458563631096791 / 4503599627370496 * 0) = Finite 0"
    "round64 (45035996273705 / 4503599627370496 * 0) = Finite 0" "round64 (0 + 0) = Finite 0"
    by (simp_all add: z)
  then show ?thesis by (rule ema_update_float64)
qed

lemma lit2: "float_literal 2 = Float64 (Finite 2)"
proof -
  have "round64 2 = Finite (of_int 4503599627370496 * 2 powi (1 - 52))"
    by (rule round64_eval) (simp_all add: rne_def)
  then show ?thesis by (simp add: float_literal_def)
qed

lemma lit3: "float_literal 3 = Float64 (Finite 3)"
proof -
  have "round64 3 = Finite (of_int 6755399441055744 * 2 powi (1 - 52))"
    by (rule round64_eval) (simp_all add: rne_def)
  then show ?thesis by (simp add: float_literal_def)
qed

lemma ema_3_2:
  "ema_update (Float64 (Finite 3)) (Float64 (Finite 2)) (float_literal 0.99)
   = Float64 (Finite (6732881442918891 / 2251799813685248))"
proof -
  have p1: "round64 (4458563631096791 / 4503599627370496 * 3)
          = Finite (of_int 6687845446645186 * 2 powi (1 - 52))"
    by (rule round64_eval) (simp_all add: rne_def)
  have p2: "round64 (45035996273705 / 4503599627370496 * 2)
          = Finite (of_int 5764607523034240 * 2 powi (- 6 - 52))"
    by (rule round64_eval) (simp_all add: rne_def)
  have s: "round64 (of_int 6687845446645186 * 2 powi (1 - 52) + of_int 5764607523034240 * 2 powi (- 6 - 52))
          = Finite (of_int 6732881442918891 * 2 powi (1 - 52))"
    by (rule round64_eval) (simp_all add: rne_def)
  from ema_update_float64 [OF p1 p2 s] show ?thesis by simp
qed

text \<open>
  Claim C8, amended. On Python's floats, with \<open>beta = 0.99\<close>, one update of a finite value
  \<open>x\<close> with the loss \<open>L\<close>, both zero or the larger of their magnitudes between \<open>2 ^ -1000\<close>
  and \<open>2 ^ 1000\<close>, returns a finite float \<open>e\<close> that lies in \<open>[min(x, L), max(x, L)]\<close> up to the
  rounding error \<open>3 * 2 ^ -53 * max(|x|, |L|)\<close>, and whose distance to \<open>L\<close> is at most
  \<open>0.99 * |x - L|\<close> plus that rounding error. It need not lie in the interval, and it need
  not be closer to \<open>L\<close> than \<open>x\<close> is.
\<close>

theorem ema_update_float_step:
  fixes x L :: real
  assumes "max \<bar>x\<bar> \<bar>L\<bar> = 0 \<or> 2 powi (- 1000) \<le> max \<bar>x\<bar> \<bar>L\<bar>"
    and "max \<bar>x\<bar> \<bar>L\<bar> \<le> 2 ^ 1000"
  shows "\<exists>e. ema_update (Float64 (Finite x)) (Float64 (Finite L)) (float_literal 0.99)
               = Float64 (Finite e) \<and>
             min x L - 3 * 2 powi (- 53) * max \<bar>x\<bar> \<bar>L\<bar> \<le> e \<and>
             e \<le> max x L + 3 * 2 powi (- 53) * max \<bar>x\<bar> \<bar>L\<bar> \<and>
             \<bar>e - L\<bar> \<le> 0.99 * \<bar>x - L\<bar> + 3 * 2 powi (- 53) * max \<bar>x\<bar> \<bar>L\<bar>"
proof (cases "max \<bar>x\<bar> \<bar>L\<bar> = 0")
  case True
  then have "x = 0" "L = 0" by (simp_all add: max_def split: if_splits)
  with ema_update_float64_zero show ?thesis by simp
next
  case False
  with assms(1) have lo: "2 powi (- 1000) \<le> max \<bar>x\<bar> \<bar>L\<bar>" by simp
  define B :: real where "B = 4458563631096791 / 4503599627370496"
  define C :: real where "C = 45035996273705 / 4503599627370496"
  define d where "d = 3 * 2 powi (- 53) * max \<bar>x\<bar> \<bar>L\<bar>"
  from ema_update_float64_error [OF lo assms(2)] obtain e where
    run: "ema_update (Float64 (Finite x)) (Float64 (Finite L)) (float_literal 0.99) = Float64 (Finite e)"
    and err: "\<bar>e - (B * x + C * L)\<bar> \<le> d"
    unfolding B_def C_def d_def by blast
  have B: "0 \<le> B" "0 \<le> C" "B + C = 1" "B \<le> 99 / 100" by (simp_all add: B_def C_def)
  have lower: "min x L \<le> B * x + C * L"
  proof -
    have "B * min x L \<le> B * x" "C * min x L \<le> C * L" using B by (simp_all add: mult_left_mono)
    moreover have "B * min x L + C * min x L = min x L"
    proof -
      have "B * min x L + C * min x L = (B + C) * min x L" by (simp add: algebra_simps)
      then show ?thesis by (simp add: B)
    qed
    ultimately show ?thesis by linarith
  qed
  have upper: "B * x + C * L \<le> max x L"
  proof -
    have "B * x \<le> B * max x L" "C * L \<le> C * max x L" using B by (simp_all add: mult_left_mono)
    moreover have "B * max x L + C * max x L = max x L"
    proof -
      have "B * max x L + C * max x L = (B + C) * max x L" by (simp add: algebra_simps)
      then show ?thesis by (simp add: B)
    qed
    ultimately show ?thesis by linarith
  qed
  have dist: "\<bar>B * x + C * L - L\<bar> \<le> 99 / 100 * \<bar>x - L\<bar>"
  proof -
    from B(3) have c: "C = 1 - B" by linarith
    have "B * x + (1 - B) * L - L = B * (x - L)" by (simp add: algebra_simps)
    then have "B * x + C * L - L = B * (x - L)" by (simp only: c)
    then have "\<bar>B * x + C * L - L\<bar> = B * \<bar>x - L\<bar>" using B by (simp add: abs_mult)
    also have "\<dots> \<le> 99 / 100 * \<bar>x - L\<bar>" using B by (intro mult_right_mono) simp_all
    finally show ?thesis .
  qed
  from err lower upper dist have "min x L - d \<le> e" "e \<le> max x L + d"
    "\<bar>e - L\<bar> \<le> 99 / 100 * \<bar>x - L\<bar> + d" by linarith+
  with run show ?thesis unfolding d_def by auto
qed

theorem ema_update_float_step_witness:
  "(max \<bar>3::real\<bar> \<bar>2\<bar> = 0 \<or> (2::real) powi (- 1000) \<le> max \<bar>3\<bar> \<bar>2\<bar>) \<and>
   max \<bar>3::real\<bar> \<bar>2\<bar> \<le> 2 ^ 1000 \<and>
   ema_update (float_literal 3) (float_literal 2) (float_literal 0.99)
     = Float64 (Finite (6732881442918891 / 2251799813685248)) \<and>
   min 3 2 - 3 * 2 powi (- 53) * max \<bar>3\<bar> \<bar>2\<bar> \<le> (6732881442918891 / 2251799813685248 :: real) \<and>
   (6732881442918891 / 2251799813685248 :: real) \<le> max 3 2 + 3 * 2 powi (- 53) * max \<bar>3\<bar> \<bar>2\<bar> \<and>
   \<bar>6732881442918891 / 2251799813685248 - 2 :: real\<bar>
     \<le> 0.99 * \<bar>3 - 2\<bar> + 3 * 2 powi (- 53) * max \<bar>3\<bar> \<bar>2\<bar>"
proof -
  have "(2::real) powi (- 1000) \<le> 2 powi 0" by (intro power_int_increasing) simp_all
  then have lo: "max \<bar>3::real\<bar> \<bar>2\<bar> = 0 \<or> (2::real) powi (- 1000) \<le> max \<bar>3\<bar> \<bar>2\<bar>" by simp
  have "(2::real) ^ 2 \<le> 2 ^ 1000" by (intro power_increasing) simp_all
  then have hi: "max \<bar>3::real\<bar> \<bar>2\<bar> \<le> 2 ^ 1000" by simp
  have run: "ema_update (float_literal 3) (float_literal 2) (float_literal 0.99)
     = Float64 (Finite (6732881442918891 / 2251799813685248))"
    by (simp only: lit3 lit2 ema_3_2)
  from ema_update_float_step [OF lo hi] obtain e where
    e: "ema_update (Float64 (Finite 3)) (Float64 (Finite 2)) (float_literal 0.99) = Float64 (Finite e)"
    and b: "min 3 2 - 3 * 2 powi (- 53) * max \<bar>3\<bar> \<bar>2\<bar> \<le> e"
      "e \<le> max 3 2 + 3 * 2 powi (- 53) * max \<bar>3\<bar> \<bar>2\<bar>"
      "\<bar>e - 2\<bar> \<le> 0.99 * \<bar>3 - 2\<bar> + 3 * 2 powi (- 53) * max \<bar>3\<bar> \<bar>2\<bar>"
    by blast
  from e have "e = 6732881442918891 / 2251799813685248" by (simp only: ema_3_2 float64.inject pyfloat.inject)
  with b lo hi run show ?thesis by blast
qed

lemma lit13: "float_literal 1.3 = Float64 (Finite (5854679515581645 / 4503599627370496))"
proof -
  have "round64 1.3 = Finite (of_int 5854679515581645 * 2 powi (0 - 52))"
    by (rule round64_eval) (simp_all add: rne_def)
  then show ?thesis by (simp add: float_literal_def)
qed

lemma ema_13:
  "ema_update (Float64 (Finite (5854679515581645 / 4503599627370496)))
     (Float64 (Finite (5854679515581645 / 4503599627370496))) (float_literal 0.99)
   = Float64 (Finite (5854679515581644 / 4503599627370496))"
proof -
  have p1: "round64 (4458563631096791 / 4503599627370496 * (5854679515581645 / 4503599627370496))
          = Finite (of_int 5796132720425828 * 2 powi (0 - 52))"
    by (rule round64_eval) (simp_all add: rne_def)
  have p2: "round64 (45035996273705 / 4503599627370496 * (5854679515581645 / 4503599627370496))
          = Finite (of_int 7493989779944512 * 2 powi (- 7 - 52))"
    by (rule round64_eval) (simp_all add: rne_def)
  have s: "round64 (of_int 5796132720425828 * 2 powi (0 - 52) + of_int 7493989779944512 * 2 powi (- 7 - 52))
          = Finite (of_int 5854679515581644 * 2 powi (0 - 52))"
    by (rule round64_eval) (simp_all add: rne_def)
  from ema_update_float64 [OF p1 p2 s] show ?thesis by simp
qed

lemma ema_stuck:
  "ema_update (Float64 (Finite (2251799813685285 / 1125899906842624))) (Float64 (Finite 2))
     (float_literal 0.99)
   = Float64 (Finite (2251799813685285 / 1125899906842624))"
proof -
  have p1: "round64 (4458563631096791 / 4503599627370496 * (2251799813685285 / 1125899906842624))
          = Finite (of_int 8917127262193729 * 2 powi (0 - 52))"
    by (rule round64_eval) (simp_all add: rne_def)
  have p2: "round64 (45035996273705 / 4503599627370496 * 2)
          = Finite (of_int 5764607523034240 * 2 powi (- 6 - 52))"
    by (rule round64_eval) (simp_all add: rne_def)
  have s: "round64 (of_int 8917127262193729 * 2 powi (0 - 52) + of_int 5764607523034240 * 2 powi (- 6 - 52))
          = Finite (of_int 4503599627370570 * 2 powi (1 - 52))"
    by (rule round64_eval) (simp_all add: rne_def)
  from ema_update_float64 [OF p1 p2 s] show ?thesis by simp
qed

text \<open>
  Claim C8 as the spec has it fails on Python's floats. With the constant loss
  \<open>L = 1.3\<close> and the value \<open>old = 1.3\<close>, \<open>ema_update(1.3, 1.3)\<close> is \<open>1.2999999999999998\<close>, the
  float below \<open>1.3\<close>: it is less than \<open>min(old, L)\<close>. With the constant loss \<open>2.0\<close>,
  \<open>ema_update\<close> returns the value \<open>2.000000000000033\<close> unchanged: the iterates that reach
  it come no closer to \<open>L\<close>.
\<close>

theorem ema_update_float_leaves_range:
  "float_literal 1.3 = Float64 (Finite (5854679515581645 / 4503599627370496)) \<and>
   ema_update (float_literal 1.3) (float_literal 1.3) (float_literal 0.99)
     = Float64 (Finite (5854679515581644 / 4503599627370496)) \<and>
   (5854679515581644 / 4503599627370496 :: real)
     < min (5854679515581645 / 4503599627370496) (5854679515581645 / 4503599627370496) \<and>
   ema_update (Float64 (Finite (2251799813685285 / 1125899906842624))) (float_literal 2)
       (float_literal 0.99)
     = Float64 (Finite (2251799813685285 / 1125899906842624)) \<and>
   (2251799813685285 / 1125899906842624 :: real) \<noteq> 2"
proof -
  have a: "ema_update (float_literal 1.3) (float_literal 1.3) (float_literal 0.99)
     = Float64 (Finite (5854679515581644 / 4503599627370496))"
    by (simp only: lit13 ema_13)
  have b: "ema_update (Float64 (Finite (2251799813685285 / 1125899906842624))) (float_literal 2)
       (float_literal 0.99)
     = Float64 (Finite (2251799813685285 / 1125899906842624))"
    by (simp only: lit2 ema_stuck)
  have c: "(5854679515581644 / 4503599627370496 :: real)
     < min (5854679515581645 / 4503599627370496) (5854679515581645 / 4503599627370496)"
    "(2251799813685285 / 1125899906842624 :: real) \<noteq> 2" by simp_all
  from lit13 a b c show ?thesis by blast
qed

section \<open>Properties of the EMA tracker\<close>

text \<open>
  Without rounding, \<open>ema_update\<close> on finite floats is the blend of the real numbers. On its
  own it would keep the initial \<open>+infinity\<close> for ever: bypassing the blend is left to its
  caller.
\<close>

lemma ema_update_Finite:
  "ema_update (Finite x) (Finite l) (Finite b) = Finite (b * x + (1 - b) * l)"
  by (simp add: ema_update_def one_pyfloat_def minus_pyfloat_def)

lemma ema_update_PosInf:
  "0 < b \<Longrightarrow> ema_update PosInf (Finite l) (Finite b) = PosInf"
  by (simp add: ema_update_def one_pyfloat_def minus_pyfloat_def)

lemma is_finite_iff: "is_finite e \<longleftrightarrow> (\<exists>x. e = Finite x)"
  by (cases e) simp_all

lemma compute_ema_losses_length:
  "length (snd (compute_ema_losses nll beta outputs target ema_state))
     = min (length ema_state) (length outputs)"
  by (simp add: compute_ema_losses_def Let_def)

lemma compute_ema_losses_nth:
  assumes "k < length outputs" and "k < length ema_state"
  shows "snd (compute_ema_losses nll beta outputs target ema_state) ! k =
           (if is_finite (ema_state ! k) then ema_update (ema_state ! k) (nll (outputs ! k) target) beta
            else nll (outputs ! k) target)"
  using assms by (simp add: compute_ema_losses_def Let_def)

lemma compute_ema_losses_first:
  "snd (compute_ema_losses nll beta outputs target initial_ema_losses)
     = take 4 (map (\<lambda>y. nll y target) outputs)"
proof (rule nth_equalityI)
  show "length (snd (compute_ema_losses nll beta outputs target initial_ema_losses))
          = length (take 4 (map (\<lambda>y. nll y target) outputs))"
    by (simp add: compute_ema_losses_length initial_ema_losses_def min.commute)
next
  fix k
  assume "k < length (snd (compute_ema_losses nll beta outputs target initial_ema_losses))"
  then have k: "k < length outputs" "k < length initial_ema_losses" "k < 4"
    by (simp_all add: compute_ema_losses_length initial_ema_losses_def)
  then have "initial_ema_losses ! k = PosInf" by (simp add: initial_ema_losses_def)
  with compute_ema_losses_nth [OF k(1,2), of nll beta target] k
  show "snd (compute_ema_losses nll beta outputs target initial_ema_losses) ! k
          = take 4 (map (\<lambda>y. nll y target) outputs) ! k"
    by simp
qed

lemma compute_ema_losses_finite:
  assumes "\<forall>y t. is_finite (nll y t)" and "is_finite beta"
  shows "\<forall>e \<in> set (snd (compute_ema_losses nll beta outputs target ema_state)). is_finite e"
proof
  fix e
  assume "e \<in> set (snd (compute_ema_losses nll beta outputs target ema_state))"
  then obtain k where k: "k < length (snd (compute_ema_losses nll beta outputs target ema_state))"
    and e: "e = snd (compute_ema_losses nll beta outputs target ema_state) ! k"
    by (auto simp: in_set_conv_nth)
  from k have kk: "k < length outputs" "k < length ema_state"
    by (simp_all add: compute_ema_losses_length)
  from assms(2) obtain b where b: "beta = Finite b" by (auto simp: is_finite_iff)
  from assms(1) have "is_finite (nll (outputs ! k) target)" by blast
  then obtain l where l: "nll (outputs ! k) target = Finite l" by (auto simp: is_finite_iff)
  show "is_finite e"
  proof (cases "is_finite (ema_state ! k)")
    case True
    then obtain x where "ema_state ! k = Finite x" by (auto simp: is_finite_iff)
    with True e b l show ?thesis
      by (simp add: compute_ema_losses_nth [OF kk] ema_update_Finite)
  next
    case False
    with e l show ?thesis by (simp add: compute_ema_losses_nth [OF kk])
  qed
qed

lemma ema_run_finite:
  assumes "\<forall>y t. is_finite (nll y t)" and "is_finite beta"
    and "\<forall>b \<in> set batches. length (fst b) = 4"
    and "length ema_state = 4"
    and "batches \<noteq> [] \<or> (\<forall>e \<in> set ema_state. is_finite e)"
  shows "length (ema_run nll beta batches ema_state) = 4 \<and>
         (\<forall>e \<in> set (ema_run nll beta batches ema_state). is_finite e)"
  using assms(3-5)
proof (induction batches arbitrary: ema_state)
  case Nil
  then show ?case by simp
next
  case (Cons b batches)
  obtain outputs target where b: "b = (outputs, target)" by (cases b)
  let ?e = "snd (compute_ema_losses nll beta outputs target ema_state)"
  from Cons.prems(1) b have "length outputs = 4" by simp
  with Cons.prems(2) have len: "length ?e = 4" by (simp add: compute_ema_losses_length)
  have fin: "batches \<noteq> [] \<or> (\<forall>e \<in> set ?e. is_finite e)"
    using compute_ema_losses_finite [OF assms(1,2)] by blast
  from Cons.prems(1) have "\<forall>b \<in> set batches. length (fst b) = 4" by simp
  from Cons.IH [OF this len fin] show ?case by (simp add: b)
qed

text \<open>
  Claim C4. For every layer \<open>k\<close>, the tracker's update gives
  \<open>new_ema_state[k] = beta * ema_state[k] + (1 - beta) * losses[k]\<close> when \<open>ema_state[k]\<close> is
  finite, and \<open>new_ema_state[k] = losses[k]\<close> when it is not. From the initial state of
  \<open>go\<close>, four times \<open>+infinity\<close>, the first update gives the losses themselves, and with
  finite losses every EMA value after one update or more is finite.
\<close>

theorem ema_tracker_update:
  "(\<forall>k. k < length outputs \<and> k < length ema_state \<longrightarrow>
      snd (compute_ema_losses nll beta outputs target ema_state) ! k =
        (if is_finite (ema_state ! k)
         then beta * ema_state ! k + (1 - beta) * fst (compute_ema_losses nll beta outputs target ema_state) ! k
         else fst (compute_ema_losses nll beta outputs target ema_state) ! k)) \<and>
   snd (compute_ema_losses nll beta outputs target initial_ema_losses) =
     take 4 (fst (compute_ema_losses nll beta outputs target initial_ema_losses)) \<and>
   ((\<forall>y t. is_finite (nll y t)) \<and> is_finite beta \<and> batches \<noteq> [] \<and>
    (\<forall>b \<in> set batches. length (fst b) = 4) \<longrightarrow>
      length (ema_run nll beta batches initial_ema_losses) = 4 \<and>
      (\<forall>e \<in> set (ema_run nll beta batches initial_ema_losses). is_finite e))"
proof (intro conjI allI impI)
  fix k
  assume "k < length outputs \<and> k < length ema_state"
  then have k: "k < length outputs" "k < length ema_state" by simp_all
  have "fst (compute_ema_losses nll beta outputs target ema_state) ! k = nll (outputs ! k) target"
    using k by (simp add: compute_ema_losses_def Let_def)
  then show "snd (compute_ema_losses nll beta outputs target ema_state) ! k =
        (if is_finite (ema_state ! k)
         then beta * ema_state ! k + (1 - beta) * fst (compute_ema_losses nll beta outputs target ema_state) ! k
         else fst (compute_ema_losses nll beta outputs target ema_state) ! k)"
    by (simp add: compute_ema_losses_nth [OF k] ema_update_def)
next
  have "fst (compute_ema_losses nll beta outputs target initial_ema_losses)
          = map (\<lambda>y. nll y target) outputs"
    by (simp add: compute_ema_losses_def Let_def)
  then show "snd (compute_ema_losses nll beta outputs target initial_ema_losses) =
     take 4 (fst (compute_ema_losses nll beta outputs target initial_ema_losses))"
    by (simp add: compute_ema_losses_first)
next
  assume a: "(\<forall>y t. is_finite (nll y t)) \<and> is_finite beta \<and> batches \<noteq> [] \<and>
    (\<forall>b \<in> set batches. length (fst b) = 4)"
  have "length initial_ema_losses = 4" by (simp add: initial_ema_losses_def)
  with a have "length (ema_run nll beta batches initial_ema_losses) = 4 \<and>
         (\<forall>e \<in> set (ema_run nll beta batches initial_ema_losses). is_finite e)"
    by (intro ema_run_finite) simp_all
  then show "length (ema_run nll beta batches initial_ema_losses) = 4"
    and "\<forall>e \<in> set (ema_run nll beta batches initial_ema_losses). is_finite e" by simp_all
qed

theorem ema_tracker_update_witness:
  "(0::nat) < length [1, 2, 3, 4::real] \<and> (0::nat) < length [PosInf, Finite 2, NaN, Finite 0] \<and>
   compute_ema_losses (\<lambda>y t. Finite (y + t)) (Finite 0.99) [1, 2, 3, 4] 0 [PosInf, Finite 2, NaN, Finite 0]
     = ([Finite 1, Finite 2, Finite 3, Finite 4], [Finite 1, Finite 2, Finite 3, Finite 0.04]) \<and>
   [Finite 1, Finite 2, Finite 3, Finite 0.04] ! 0 = [Finite 1, Finite 2, Finite 3, Finite 4] ! 0 \<and>
   [Finite 1, Finite 2, Finite 3, Finite 0.04] ! 3 =
     Finite 0.99 * Finite 0 + (1 - Finite 0.99) * [Finite 1, Finite 2, Finite 3, Finite 4] ! 3 \<and>
   ema_run (\<lambda>y t. Finite (y + t)) (Finite 0.99) [([1, 2, 3, 4], 0), ([2, 2, 2, 2], 1)] initial_ema_losses
     = [Finite 1.02, Finite 2.01, Finite 3, Finite 3.99] \<and>
   is_finite ([Finite 1.02, Finite 2.01, Finite 3, Finite 3.99] ! 0)"
proof -
  let ?nll = "\<lambda>(y::real) (t::real). Finite (y + t)"
  let ?beta = "Finite 0.99"
  let ?outputs = "[1, 2, 3, 4::real]"
  let ?ema = "[PosInf, Finite 2, NaN, Finite 0]"
  let ?batches = "[([1, 2, 3, 4::real], 0::real), ([2, 2, 2, 2], 1)]"
  note inst = ema_tracker_update [of ?outputs ?ema ?nll ?beta 0 ?batches]
  have run: "compute_ema_losses ?nll ?beta ?outputs 0 ?ema
     = ([Finite 1, Finite 2, Finite 3, Finite 4], [Finite 1, Finite 2, Finite 3, Finite 0.04])"
    by code_simp
  have runs: "ema_run ?nll ?beta ?batches initial_ema_losses
     = [Finite 1.02, Finite 2.01, Finite 3, Finite 3.99]"
    by code_simp
  have k0: "(0::nat) < length ?outputs \<and> (0::nat) < length ?ema" by simp
  have k3: "(3::nat) < length ?outputs \<and> (3::nat) < length ?ema" by simp
  from inst have nth: "\<forall>k. k < length ?outputs \<and> k < length ?ema \<longrightarrow>
      snd (compute_ema_losses ?nll ?beta ?outputs 0 ?ema) ! k =
        (if is_finite (?ema ! k)
         then ?beta * ?ema ! k + (1 - ?beta) * fst (compute_ema_losses ?nll ?beta ?outputs 0 ?ema) ! k
         else fst (compute_ema_losses ?nll ?beta ?outputs 0 ?ema) ! k)"
    by (rule conjunct1)
  from nth [rule_format, OF k0] have a0:
    "[Finite 1, Finite 2, Finite 3, Finite 0.04] ! 0 = [Finite 1, Finite 2, Finite 3, Finite 4] ! 0"
    by (simp add: run)
  from nth [rule_format, OF k3] have a3:
    "[Finite 1, Finite 2, Finite 3, Finite 0.04] ! 3 =
     Finite 0.99 * Finite 0 + (1 - Finite 0.99) * [Finite 1, Finite 2, Finite 3, Finite 4] ! 3"
    by (simp only: run fst_conv snd_conv) simp
  have pre: "(\<forall>y t. is_finite (?nll y t)) \<and> is_finite ?beta \<and> ?batches \<noteq> [] \<and>
    (\<forall>b \<in> set ?batches. length (fst b) = 4)" by simp
  from inst have "(\<forall>y t. is_finite (?nll y t)) \<and> is_finite ?beta \<and> ?batches \<noteq> [] \<and>
    (\<forall>b \<in> set ?batches. length (fst b) = 4) \<longrightarrow>
      length (ema_run ?nll ?beta ?batches initial_ema_losses) = 4 \<and>
      (\<forall>e \<in> set (ema_run ?nll ?beta ?batches initial_ema_losses). is_finite e)"
    by blast
  with pre have "\<forall>e \<in> set (ema_run ?nll ?beta ?batches initial_ema_losses). is_finite e" by blast
  then have fin: "is_finite ([Finite 1.02, Finite 2.01, Finite 3, Finite 3.99] ! 0)"
    by (simp add: runs)
  from k0 run a0 a3 runs fin show ?thesis by blast
qed

section \<open>Properties of the loss combiner\<close>

text \<open>
  Claim C3. For all inputs, the combined objective that the loss combiner returns is
  \<open>teacher_loss + gamma * mean(student_losses)\<close>, with \<open>teacher_loss\<close> and \<open>student_losses\<close>
  the losses it returns beside it; with \<open>gamma = 0\<close> the combined objective is
  \<open>teacher_loss\<close>.
\<close>

theorem distill_loss_total:
  "fst (distill_loss nll teacher_logits target student_logits_list gamma) =
     fst (snd (distill_loss nll teacher_logits target student_logits_list gamma)) +
     gamma * mean (snd (snd (distill_loss nll teacher_logits target student_logits_list gamma))) \<and>
   fst (snd (distill_loss nll teacher_logits target student_logits_list gamma)) =
     nll teacher_logits target \<and>
   snd (snd (distill_loss nll teacher_logits target student_logits_list gamma)) =
     map (\<lambda>y. nll y target) student_logits_list \<and>
   fst (distill_loss nll teacher_logits target student_logits_list 0) =
     fst (snd (distill_loss nll teacher_logits target student_logits_list 0))"
  by (simp add: distill_loss_def Let_def)

section \<open>Properties of go\<close>

subsection \<open>What one iteration and the whole loop add to the events\<close>

lemma due_Inr: "due cfg i = Inr d \<Longrightarrow> d = evaluated_iteration cfg i"
  by (auto simp: due_def evaluated_iteration_def split: if_splits)

lemma evaluate_Inr:
  assumes "evaluate ext cfg data_test i st = Inr st'"
  obtains seedfr pg r h tg where
    "random_randint 0 (int (length data_test) - context_len cfg) (py_gen st) = Inr (seedfr, pg)"
    and "sample_sequence (torch ext) (logits ext (params st))
           [py_slice data_test seedfr (seedfr + context_len cfg)] 0
           (context_len cfg) (sample_length cfg) (1 / 2) (torch_gen st) = Inr (r, h, tg)"
    and "st' = st\<lparr>torch_gen := tg, py_gen := pg,
            trace := trace st @
              [Sampled i seedfr (py_slice data_test seedfr (seedfr + context_len cfg)),
               Evaluated i
                 (py_slice data_test 0
                    (if int i = num_batches cfg - 1 then int (length data_test) else test_subset cfg))
                 (compute_compression ext (params st)
                    (py_slice data_test 0
                       (if int i = num_batches cfg - 1 then int (length data_test)
                        else test_subset cfg)))]\<rparr>"
proof (cases "random_randint 0 (int (length data_test) - context_len cfg) (py_gen st)")
  case (Inl e)
  with assms show ?thesis by (simp add: evaluate_def)
next
  case (Inr p)
  obtain seedfr pg where p: "p = (seedfr, pg)" by (cases p)
  show ?thesis
  proof (cases "sample_sequence (torch ext) (logits ext (params st))
           [py_slice data_test seedfr (seedfr + context_len cfg)] 0
           (context_len cfg) (sample_length cfg) (1 / 2) (torch_gen st)")
    case (Inl e)
    with assms Inr p show ?thesis by (simp add: evaluate_def Let_def)
  next
    case (Inr q)
    obtain r h tg where q: "q = (r, h, tg)" by (cases q)
    from assms \<open>random_randint 0 (int (length data_test) - context_len cfg) (py_gen st) = Inr p\<close>
      p Inr q
    have "st' = st\<lparr>torch_gen := tg, py_gen := pg,
            trace := trace st @
              [Sampled i seedfr (py_slice data_test seedfr (seedfr + context_len cfg)),
               Evaluated i
                 (py_slice data_test 0
                    (if int i = num_batches cfg - 1 then int (length data_test) else test_subset cfg))
                 (compute_compression ext (params st)
                    (py_slice data_test 0
                       (if int i = num_batches cfg - 1 then int (length data_test)
                        else test_subset cfg)))]\<rparr>"
      by (simp add: evaluate_def Let_def)
    with that \<open>random_randint 0 (int (length data_test) - context_len cfg) (py_gen st) = Inr p\<close>
      p Inr q show ?thesis by blast
  qed
qed

lemma iteration_Inr:
  assumes "iteration ext cfg data_train data_test i st = Inr st'"
  obtains source target tg d where
    "sample_batch data_train (context_len cfg) (batch_size cfg) (torch_gen st)
       = Inr ((source, target), tg)"
    and "due cfg i = Inr d"
    and "d \<longrightarrow> evaluate ext cfg data_test i
           (st\<lparr>params := train_step ext (params st) source target, torch_gen := tg,
              instances_seen := instances_seen st + int (length source),
              trace := trace st @ [Trained i source target]\<rparr>) = Inr st'"
    and "\<not> d \<longrightarrow> st' = st\<lparr>params := train_step ext (params st) source target, torch_gen := tg,
              instances_seen := instances_seen st + int (length source),
              trace := trace st @ [Trained i source target]\<rparr>"
proof (cases "sample_batch data_train (context_len cfg) (batch_size cfg) (torch_gen st)")
  case (Inl e)
  with assms show ?thesis by (simp add: iteration_def)
next
  case (Inr p)
  obtain source target tg where p: "p = ((source, target), tg)" by (cases p) auto
  show ?thesis
  proof (cases "due cfg i")
    case (Inl e)
    with assms Inr p show ?thesis by (simp add: iteration_def Let_def)
  next
    case d: (Inr d)
    from assms Inr p d have
      "(if d then evaluate ext cfg data_test i
           (st\<lparr>params := train_step ext (params st) source target, torch_gen := tg,
              instances_seen := instances_seen st + int (length source),
              trace := trace st @ [Trained i source target]\<rparr>)
        else Inr (st\<lparr>params := train_step ext (params st) source target, torch_gen := tg,
              instances_seen := instances_seen st + int (length source),
              trace := trace st @ [Trained i source target]\<rparr>)) = Inr st'"
      by (simp add: iteration_def Let_def)
    then have "d \<longrightarrow> evaluate ext cfg data_test i
           (st\<lparr>params := train_step ext (params st) source target, torch_gen := tg,
              instances_seen := instances_seen st + int (length source),
              trace := trace st @ [Trained i source target]\<rparr>) = Inr st'"
      and "\<not> d \<longrightarrow> st' = st\<lparr>params := train_step ext (params st) source target, torch_gen := tg,
              instances_seen := instances_seen st + int (length source),
              trace := trace st @ [Trained i source target]\<rparr>"
      by (simp_all split: if_splits)
    with that Inr p d show ?thesis by blast
  qed
qed

lemma iteration_trace:
  assumes "iteration ext cfg data_train data_test i st = Inr st'"
  shows "trained_at (trace st') = trained_at (trace st) @ [i] \<and>
         sampled_at (trace st') = sampled_at (trace st) @ (if evaluated_iteration cfg i then [i] else []) \<and>
         evaluated_at (trace st') = evaluated_at (trace st) @ (if evaluated_iteration cfg i then [i] else [])"
proof -
  from assms obtain source target tg d where
    sb: "sample_batch data_train (context_len cfg) (batch_size cfg) (torch_gen st)
           = Inr ((source, target), tg)"
    and d: "due cfg i = Inr d"
    and ev: "d \<longrightarrow> evaluate ext cfg data_test i
           (st\<lparr>params := train_step ext (params st) source target, torch_gen := tg,
              instances_seen := instances_seen st + int (length source),
              trace := trace st @ [Trained i source target]\<rparr>) = Inr st'"
    and nev: "\<not> d \<longrightarrow> st' = st\<lparr>params := train_step ext (params st) source target, torch_gen := tg,
              instances_seen := instances_seen st + int (length source),
              trace := trace st @ [Trained i source target]\<rparr>"
    by (rule iteration_Inr)
  note dd = due_Inr [OF d]
  show ?thesis
  proof (cases d)
    case True
    from ev True obtain seedfr seed data_sub bits where
      "trace st' = (trace st @ [Trained i source target]) @
         [Sampled i seedfr seed, Evaluated i data_sub bits]"
      by (auto elim!: evaluate_Inr)
    with True dd show ?thesis
      by (simp add: trained_at_def sampled_at_def evaluated_at_def)
  next
    case False
    from nev False have "trace st' = trace st @ [Trained i source target]" by simp
    with False dd show ?thesis
      by (simp add: trained_at_def sampled_at_def evaluated_at_def)
  qed
qed

lemma run_iters_trace:
  assumes "run_iters ext cfg data_train data_test idx st = Inr st'"
  shows "trained_at (trace st') = trained_at (trace st) @ idx \<and>
         sampled_at (trace st') = sampled_at (trace st) @ filter (evaluated_iteration cfg) idx \<and>
         evaluated_at (trace st') = evaluated_at (trace st) @ filter (evaluated_iteration cfg) idx"
  using assms
proof (induction idx arbitrary: st)
  case Nil
  then show ?case by simp
next
  case (Cons i idx)
  from Cons.prems obtain st1 where
    a: "iteration ext cfg data_train data_test i st = Inr st1"
    and b: "run_iters ext cfg data_train data_test idx st1 = Inr st'"
    by (cases "iteration ext cfg data_train data_test i st") simp_all
  from iteration_trace [OF a] Cons.IH [OF b] show ?case by simp
qed

lemma go_Inr:
  assumes "go ext cfg trX vaX teX seed torch0 py0 = Inr st"
  obtains tg0 pg0 where
    "seed_sources ext seed torch0 py0 = Inr (tg0, pg0)"
    and "create_scheduler ext (num_batches cfg) = None"
    and "run_iters ext cfg (fst (select_data (final cfg) trX vaX teX))
           (snd (select_data (final cfg) trX vaX teX)) [0..<nat (num_batches cfg)]
           \<lparr>params = fst (create_model ext tg0), torch_gen = snd (create_model ext tg0),
            py_gen = pg0, instances_seen = 0, trace = []\<rparr> = Inr st"
proof (cases "seed_sources ext seed torch0 py0")
  case (Inl e)
  with assms show ?thesis by (simp add: go_def)
next
  case (Inr p)
  obtain tg0 pg0 where p: "p = (tg0, pg0)" by (cases p)
  show ?thesis
  proof (cases "create_scheduler ext (num_batches cfg)")
    case (Some e)
    with assms Inr p show ?thesis by (simp add: go_def split: prod.splits)
  next
    case None
    with assms Inr p have
      "run_iters ext cfg (fst (select_data (final cfg) trX vaX teX))
           (snd (select_data (final cfg) trX vaX teX)) [0..<nat (num_batches cfg)]
           \<lparr>params = fst (create_model ext tg0), torch_gen = snd (create_model ext tg0),
            py_gen = pg0, instances_seen = 0, trace = []\<rparr> = Inr st"
      by (simp add: go_def split: prod.splits)
    with that Inr p None show ?thesis by blast
  qed
qed

lemma go_trace:
  assumes "go ext cfg trX vaX teX seed torch0 py0 = Inr st"
  shows "trained_at (trace st) = [0..<nat (num_batches cfg)] \<and>
         sampled_at (trace st) = filter (evaluated_iteration cfg) [0..<nat (num_batches cfg)] \<and>
         evaluated_at (trace st) = filter (evaluated_iteration cfg) [0..<nat (num_batches cfg)]"
proof -
  from assms obtain tg0 pg0 where
    "run_iters ext cfg (fst (select_data (final cfg) trX vaX teX))
           (snd (select_data (final cfg) trX vaX teX)) [0..<nat (num_batches cfg)]
           \<lparr>params = fst (create_model ext tg0), torch_gen = snd (create_model ext tg0),
            py_gen = pg0, instances_seen = 0, trace = []\<rparr> = Inr st"
    by (rule go_Inr)
  from run_iters_trace [OF this] show ?thesis
    by (simp add: trained_at_def sampled_at_def evaluated_at_def)
qed

subsection \<open>What the sampling check takes from torch's generator\<close>




lemma batches_of_append: "batches_of (xs @ ys) = batches_of xs @ batches_of ys"
  by (simp add: batches_of_def)


subsection \<open>The schedule of the evaluations\<close>

text \<open>
  Claim C5, amended. Claim C5 says that every iteration \<open>i\<close> in \<open>[0, num_batches)\<close> with
  \<open>i % test_every == 0\<close> or \<open>i == num_batches - 1\<close> runs the sampling check and the
  bits-per-byte evaluation once, so that the final iteration is always evaluated. The
  condition of the source starts with \<open>i != 0\<close>. What holds: a run that returns has trained
  once in every iteration, and has run the sampling check and the bits-per-byte evaluation
  once in every iteration \<open>i\<close> of \<open>[1, num_batches)\<close> with \<open>i % test_every == 0\<close> or
  \<open>i == num_batches - 1\<close>, and in no other iteration. So a run that returns has evaluated
  its final iteration when \<open>num_batches \<ge> 2\<close>, and not when \<open>num_batches = 1\<close>. Not every
  run returns: the constructor of the scheduler, the batch sampler, the sampling check and
  the evaluation can raise.
\<close>

theorem go_evaluation_schedule:
  "\<forall>st. go ext cfg trX vaX teX seed torch0 py0 = Inr st \<longrightarrow>
      trained_at (trace st) = [0..<nat (num_batches cfg)] \<and>
      sampled_at (trace st) =
        [i \<leftarrow> [0..<nat (num_batches cfg)].
           i \<noteq> 0 \<and> (int i mod test_every cfg = 0 \<or> int i = num_batches cfg - 1)] \<and>
      evaluated_at (trace st) =
        [i \<leftarrow> [0..<nat (num_batches cfg)].
           i \<noteq> 0 \<and> (int i mod test_every cfg = 0 \<or> int i = num_batches cfg - 1)]"
proof (intro allI impI)
  fix st
  assume "go ext cfg trX vaX teX seed torch0 py0 = Inr st"
  from go_trace [OF this]
  show "trained_at (trace st) = [0..<nat (num_batches cfg)] \<and>
      sampled_at (trace st) =
        [i \<leftarrow> [0..<nat (num_batches cfg)].
           i \<noteq> 0 \<and> (int i mod test_every cfg = 0 \<or> int i = num_batches cfg - 1)] \<and>
      evaluated_at (trace st) =
        [i \<leftarrow> [0..<nat (num_batches cfg)].
           i \<noteq> 0 \<and> (int i mod test_every cfg = 0 \<or> int i = num_batches cfg - 1)]"
    by (simp add: evaluated_iteration_def [abs_def])
qed

text \<open>
  A run of six iterations with \<open>test_every = 2\<close>: it evaluates in the iterations 2 and 4 and
  in the final iteration 5.
\<close>

theorem go_evaluation_schedule_witness:
  "schedule_view (go toy_externals (toy_config\<lparr>num_batches := 6, test_every := 2\<rparr>) [1, 2, 3, 4] [5, 6, 7] [8, 9] 1 [] [1, 0])
     = Inr ([0, 1, 2, 3, 4, 5], [2, 4, 5], [2, 4, 5]) \<and>
   [i \<leftarrow> [0..<nat (num_batches (toy_config\<lparr>num_batches := 6, test_every := 2\<rparr>))].
      i \<noteq> 0 \<and> (int i mod test_every (toy_config\<lparr>num_batches := 6, test_every := 2\<rparr>) = 0 \<or> int i = num_batches (toy_config\<lparr>num_batches := 6, test_every := 2\<rparr>) - 1)]
     = [2, 4, 5]"
proof -
  let ?cfg = "toy_config\<lparr>num_batches := 6, test_every := 2\<rparr>"
  let ?go = "go toy_externals ?cfg [1, 2, 3, 4] [5, 6, 7] [8, 9] 1 [] [1, 0]"
  have run: "schedule_view ?go = Inr ([0, 1, 2, 3, 4, 5], [2, 4, 5], [2, 4, 5])" by code_simp
  then obtain st where st: "?go = Inr st" and sa: "sampled_at (trace st) = [2, 4, 5]"
    by (cases ?go) (simp_all add: schedule_view_def)
  from go_evaluation_schedule [of toy_externals ?cfg "[1, 2, 3, 4]" "[5, 6, 7]" "[8, 9]" 1 "[]" "[1, 0]"] st
  have "sampled_at (trace st) =
        [i \<leftarrow> [0..<nat (num_batches ?cfg)].
           i \<noteq> 0 \<and> (int i mod test_every ?cfg = 0 \<or> int i = num_batches ?cfg - 1)]"
    by blast
  with sa have "[i \<leftarrow> [0..<nat (num_batches ?cfg)].
           i \<noteq> 0 \<and> (int i mod test_every ?cfg = 0 \<or> int i = num_batches ?cfg - 1)] = [2, 4, 5]"
    by simp
  with run show ?thesis by blast
qed

text \<open>
  Runs that do not return: with no iteration to run and with five iterations, the
  constructor of the scheduler raises before the first iteration.
\<close>

lemma go_scheduler_raises:
  "schedule_view (go toy_externals (toy_config\<lparr>num_batches := 0\<rparr>)
                    [1, 2, 3, 4] [5, 6, 7] [8, 9] 1 [] [1]) = Inl ValueError \<and>
   schedule_view (go toy_externals (toy_config\<lparr>num_batches := 5\<rparr>)
                    [1, 2, 3, 4] [5, 6, 7] [8, 9] 1 [] [1]) = Inl ZeroDivisionError"
  by code_simp

text \<open>
  Claim C5 as it is stated fails on a run of one iteration: iteration 0 is the final
  iteration and 0 is a multiple of \<open>test_every\<close>, and the run trains once and evaluates
  nothing.
\<close>

theorem go_skips_iteration_0:
  "(0::int) mod test_every (toy_config\<lparr>num_batches := 1\<rparr>) = 0 \<and>
   int 0 = num_batches (toy_config\<lparr>num_batches := 1\<rparr>) - 1 \<and>
   schedule_view (go toy_externals (toy_config\<lparr>num_batches := 1\<rparr>)
                    [1, 2, 3, 4] [5, 6, 7] [8, 9] 1 [] [1]) = Inr ([0], [], [])"
  by code_simp

subsection \<open>The two random sources\<close>










end
